theory Spec2Isabelle
  imports Main "HOL-Library.AList"
begin

section \<open>Python values shared by the components\<close>

text \<open>
  Exceptions are values. \<open>str_exn\<close> is Python's \<open>str(e)\<close>: the message of the exception;
  for a \<open>KeyError\<close> it is the \<open>repr\<close> of the key (the key between single quotes, for
  the hexadecimal digests the cache uses as keys), and for \<open>asyncio.TimeoutError()\<close> it
  is empty.
\<close>

datatype exn =
    ValueError string
  | RuntimeError string
  | KeyError string
  | NotImplementedError string
  | OverflowError string
  | TimeoutError
  | Exception string

fun str_exn :: "exn \<Rightarrow> string" where
  "str_exn (ValueError m) = m"
| "str_exn (RuntimeError m) = m"
| "str_exn (KeyError k) = [CHR 0x27] @ k @ [CHR 0x27]"
| "str_exn (NotImplementedError m) = m"
| "str_exn (OverflowError m) = m"
| "str_exn TimeoutError = []"
| "str_exn (Exception m) = m"

text \<open>
  A Python \<open>dict\<close> with string keys keeps its insertion order, and \<open>ClientIdentifier\<close>
  and \<open>_evict_oldest\<close> depend on that order, so a dict is an association list whose keys
  are distinct. \<open>d[k] = v\<close> is \<open>AList.update k v d\<close> (in place when the key is present,
  appended otherwise), \<open>d.get(k)\<close> is \<open>map_of d k\<close>, and \<open>del d[k]\<close> raises
  \<open>KeyError\<close> when the key is absent.
\<close>

type_synonym 'v dict = "(string \<times> 'v) list"

definition dict_del :: "'v dict \<Rightarrow> string \<Rightarrow> exn + 'v dict" where
  "dict_del d k =
     (if k \<in> fst ` set d then Inr (AList.delete k d) else Inl (KeyError k))"

text \<open>
  A loop of deletions stops at the first \<open>KeyError\<close>; the dict keeps the deletions
  made before it. An operation that may raise after it has changed the state returns the
  exception, if any, together with the state it leaves.
\<close>

fun del_keys :: "string list \<Rightarrow> 'v dict \<Rightarrow> exn option \<times> 'v dict" where
  "del_keys [] d = (None, d)"
| "del_keys (k # ks) d =
     (case dict_del d k of Inl e \<Rightarrow> (Some e, d) | Inr d' \<Rightarrow> del_keys ks d')"

section \<open>Response cache (routing/cache.py)\<close>

text \<open>
  Times are \<open>datetime\<close> values, counted here in microseconds since \<open>datetime.min\<close>
  as \<open>int\<close>: a \<open>datetime\<close> lies between \<open>0\<close> and \<open>datetime_max\<close> (the last
  microsecond of the year 9999). \<open>timedelta(seconds=s)\<close> raises \<open>OverflowError\<close> when
  its day count leaves the range of a \<open>timedelta\<close>, and adding a \<open>timedelta\<close> to a
  \<open>datetime\<close> raises \<open>OverflowError\<close> when the sum is not a \<open>datetime\<close>; the
  messages are CPython's. Each cache operation reads the clock once: the parameter
  \<open>now\<close>. The lock makes every operation atomic, so an operation is a function from
  the cache before to the cache after.
\<close>

definition datetime_max :: int where
  "datetime_max = 315537897599999999"

definition decimal_digit :: "nat \<Rightarrow> char" where
  "decimal_digit k = ''0123456789'' ! k"

fun decimal :: "nat \<Rightarrow> string" where
  "decimal n =
     (if 10 \<le> n then decimal (n div 10) @ [decimal_digit (n mod 10)]
      else [decimal_digit n])"

declare decimal.simps [simp del]

text \<open>\<open>str\<close> of a Python \<open>int\<close>.\<close>

definition str_int :: "int \<Rightarrow> string" where
  "str_int i = (if 0 \<le> i then decimal (nat i) else CHR ''-'' # decimal (nat (- i)))"

definition timedelta_seconds :: "int \<Rightarrow> exn + int" where
  "timedelta_seconds s =
     (let days = s div 86400 in
      if days < - 2147483648 \<or> 2147483647 < days
      then Inl (OverflowError ''Python int too large to convert to C int'')
      else if days < - 999999999 \<or> 999999999 < days
      then Inl (OverflowError
                 (''days='' @ str_int days @ ''; must have magnitude <= 999999999''))
      else Inr (s * 1000000))"

definition datetime_add :: "int \<Rightarrow> int \<Rightarrow> exn + int" where
  "datetime_add t delta =
     (if 0 \<le> t + delta \<and> t + delta \<le> datetime_max then Inr (t + delta)
      else Inl (OverflowError ''date value out of range''))"

record 'a CacheEntry =
  data :: 'a
  created_at :: int
  expires_at :: int

definition CacheEntry_init :: "int \<Rightarrow> 'a \<Rightarrow> int \<Rightarrow> exn + 'a CacheEntry" where
  "CacheEntry_init now d ttl_seconds =
     (case timedelta_seconds ttl_seconds of
        Inl e \<Rightarrow> Inl e
      | Inr delta \<Rightarrow>
          (case datetime_add now delta of
             Inl e \<Rightarrow> Inl e
           | Inr expiry \<Rightarrow> Inr \<lparr>data = d, created_at = now, expires_at = expiry\<rparr>))"

definition is_expired :: "int \<Rightarrow> 'a CacheEntry \<Rightarrow> bool" where
  "is_expired now e \<longleftrightarrow> now > expires_at e"

record 'a ResponseCache =
  cache :: "'a CacheEntry dict"
  max_size :: int
  default_ttl :: int

definition ResponseCache_init :: "int \<Rightarrow> int \<Rightarrow> 'a ResponseCache" where
  "ResponseCache_init msize ttl = \<lparr>cache = [], max_size = msize, default_ttl = ttl\<rparr>"

definition cache_get ::
  "int \<Rightarrow> string \<Rightarrow> 'a ResponseCache \<Rightarrow> exn + ('a option \<times> 'a ResponseCache)" where
  "cache_get now cache_key c =
     (case map_of (cache c) cache_key of
        None \<Rightarrow> Inr (None, c)
      | Some entry \<Rightarrow>
          if is_expired now entry then
            (case dict_del (cache c) cache_key of
               Inl e \<Rightarrow> Inl e
             | Inr d \<Rightarrow> Inr (None, c\<lparr>cache := d\<rparr>))
          else Inr (Some (data entry), c))"

definition cleanup_expired_unlocked ::
  "int \<Rightarrow> 'a ResponseCache \<Rightarrow> exn option \<times> 'a ResponseCache" where
  "cleanup_expired_unlocked now c =
     (let expired_keys = map fst (filter (\<lambda>(key, entry). is_expired now entry) (cache c))
      in case del_keys expired_keys (cache c) of (err, d) \<Rightarrow> (err, c\<lparr>cache := d\<rparr>))"

text \<open>\<open>sorted\<close> is stable, as \<open>sort_key\<close> is.\<close>

definition evict_oldest :: "'a ResponseCache \<Rightarrow> exn option \<times> 'a ResponseCache" where
  "evict_oldest c =
     (let sorted_entries = sort_key (\<lambda>x. created_at (snd x)) (cache c);
          evict_count = max 1 (length sorted_entries div 10)
      in case del_keys (map fst (take evict_count sorted_entries)) (cache c) of
           (err, d) \<Rightarrow> (err, c\<lparr>cache := d\<rparr>))"

text \<open>
  \<open>set\<close> builds the new entry after the cleanup and the eviction, so an
  \<open>OverflowError\<close> of the entry's expiry time leaves the cache cleaned up and evicted,
  without the new entry.
\<close>

definition cache_set ::
  "int \<Rightarrow> string \<Rightarrow> 'a \<Rightarrow> int option \<Rightarrow> 'a ResponseCache \<Rightarrow> exn option \<times> 'a ResponseCache" where
  "cache_set now cache_key d ttl c =
     (let ttl' = (case ttl of None \<Rightarrow> default_ttl c | Some t \<Rightarrow> t) in
      case (if length (cache c) mod 100 = 0 then cleanup_expired_unlocked now c else (None, c)) of
        (Some e, c1) \<Rightarrow> (Some e, c1)
      | (None, c1) \<Rightarrow>
          (case (if int (length (cache c1)) \<ge> max_size c1 then evict_oldest c1 else (None, c1)) of
             (Some e, c2) \<Rightarrow> (Some e, c2)
           | (None, c2) \<Rightarrow>
               (case CacheEntry_init now d ttl' of
                  Inl e \<Rightarrow> (Some e, c2)
                | Inr entry \<Rightarrow>
                    (None, c2\<lparr>cache := AList.update cache_key entry (cache c2)\<rparr>))))"



text \<open>
  A sequence of cache operations, each with the clock value it observes. The clock values
  are not required to increase. An operation that raises leaves the cache object in
  use, so the run goes on from the state it leaves.
\<close>

datatype 'a cache_op =
    Get string
  | Set string 'a "int option"
  | Delete string
  | Clear






section \<open>Configuration models (config/models.py)\<close>

text \<open>
  Only the fields the access rules and the supervisor read are kept. An optional list
  (\<open>Optional[List[str]]\<close>) is a \<open>string list option\<close>; \<open>identify_by\<close> is a list of
  dicts from context key to expected value.
\<close>

record AccessRule =
  server :: string
  tools :: "string list option"
  resources :: "string list option"

record ClientRule =
  identify_by :: "string dict list"
  allow :: "AccessRule list"
  deny :: "AccessRule list"
  deny_all_except_allowed :: bool

datatype Transport = Stdio | Sse | Websocket

record ServerConfig =
  source :: string
  transport :: Transport
  auto_install :: bool
  enabled :: bool

record MCPManagerConfig =
  servers :: "ServerConfig dict"
  clients :: "ClientRule dict"

section \<open>Shell-style wildcards\<close>

text \<open>
  \<open>fnmatch.fnmatch\<close> belongs to Python's standard library, not to this program: the
  functions that call it take it as the parameter \<open>fnm\<close> (name first, pattern second),
  and every theorem below holds for any such function. \<open>fnmatch_plain\<close> is what
  \<open>fnmatch.fnmatch\<close> computes on POSIX for a pattern without a bracket expression
  (\<open>*\<close> matches any run of characters, \<open>?\<close> any one character, every other character
  itself); it instantiates \<open>fnm\<close> at concrete inputs.
\<close>

fun fnmatch_plain :: "string \<Rightarrow> string \<Rightarrow> bool" where
  "fnmatch_plain [] [] = True"
| "fnmatch_plain (c # cs) [] = False"
| "fnmatch_plain [] (p # ps) = (p = CHR ''*'' \<and> fnmatch_plain [] ps)"
| "fnmatch_plain (c # cs) (p # ps) =
     (if p = CHR ''*'' then fnmatch_plain (c # cs) ps \<or> fnmatch_plain cs (p # ps)
      else (p = CHR ''?'' \<or> p = c) \<and> fnmatch_plain cs ps)"

section \<open>Permission engine (access/permission_engine.py)\<close>

fun wildcard_match :: "(string \<Rightarrow> string \<Rightarrow> bool) \<Rightarrow> string \<Rightarrow> string list \<Rightarrow> bool" where
  "wildcard_match fnm item_name [] = False"
| "wildcard_match fnm item_name (pattern # patterns) =
     (if fnm item_name pattern then True else wildcard_match fnm item_name patterns)"

definition matches_access_rule ::
  "(string \<Rightarrow> string \<Rightarrow> bool) \<Rightarrow> AccessRule \<Rightarrow> string \<Rightarrow> string \<Rightarrow> string \<Rightarrow> bool" where
  "matches_access_rule fnm rule sid item_name item_type =
     (if server rule \<noteq> sid then False
      else if item_type \<noteq> ''tools'' \<and> item_type \<noteq> ''resources'' then False
      else
        (case (if item_type = ''tools'' then tools rule else resources rule) of
           None \<Rightarrow> True
         | Some [] \<Rightarrow> True
         | Some items \<Rightarrow>
             item_name \<in> set items \<or> ''*'' \<in> set items \<or> wildcard_match fnm item_name items))"

text \<open>
  \<open>self.client_rules.get(client_id)\<close>, then the \<open>default\<close> rule (a rule object is never
  falsy, so \<open>not rule\<close> is the test for \<open>None\<close>).
\<close>

definition resolve_rule :: "ClientRule dict \<Rightarrow> string \<Rightarrow> ClientRule option" where
  "resolve_rule client_rules cid =
     (case map_of client_rules cid of
        Some rule \<Rightarrow> Some rule
      | None \<Rightarrow> map_of client_rules ''default'')"

definition check_tool_access ::
  "(string \<Rightarrow> string \<Rightarrow> bool) \<Rightarrow> ClientRule dict \<Rightarrow> string \<Rightarrow> string \<Rightarrow> string \<Rightarrow> bool" where
  "check_tool_access fnm client_rules cid sid tool_name =
     (case resolve_rule client_rules cid of
        None \<Rightarrow> False
      | Some rule \<Rightarrow>
          if list_ex (\<lambda>deny_rule. matches_access_rule fnm deny_rule sid tool_name ''tools'') (deny rule)
          then False
          else if list_ex (\<lambda>allow_rule. matches_access_rule fnm allow_rule sid tool_name ''tools'')
                    (allow rule)
          then True
          else if deny_all_except_allowed rule then False
          else True)"

section \<open>Client identifier (access/client_identifier.py)\<close>

text \<open>
  \<open>context.client_info\<close> holds either the session's initialize parameters (an object
  with the attribute \<open>clientInfo\<close>, which may be \<open>None\<close>) or an \<open>Implementation\<close> with
  \<open>name\<close> and \<open>version\<close> of its own; the \<open>hasattr\<close> tests of the source tell them apart.
\<close>

record Implementation =
  impl_name :: string
  impl_version :: string

datatype ClientInfo =
    ClientParams "Implementation option"
  | ImplementationInfo Implementation

record ConnectionContext =
  client_info :: "ClientInfo option"
  transport_type :: string
  headers :: "string dict"
  remote_address :: string
  client_id :: "string option"

definition ConnectionContext_init :: ConnectionContext where
  "ConnectionContext_init =
     \<lparr>client_info = None, transport_type = [], headers = [], remote_address = [],
      client_id = None\<rparr>"

definition dict_get_default :: "string dict \<Rightarrow> string \<Rightarrow> string \<Rightarrow> string" where
  "dict_get_default d k dflt = (case map_of d k of None \<Rightarrow> dflt | Some v \<Rightarrow> v)"

definition extract_context_value :: "ConnectionContext \<Rightarrow> string \<Rightarrow> string" where
  "extract_context_value context key =
     (if key = ''client_info.name'' then
        (case client_info context of
           None \<Rightarrow> []
         | Some (ClientParams (Some i)) \<Rightarrow> impl_name i
         | Some (ClientParams None) \<Rightarrow> []
         | Some (ImplementationInfo i) \<Rightarrow> impl_name i)
      else if key = ''client_info.version'' then
        (case client_info context of
           None \<Rightarrow> []
         | Some (ClientParams (Some i)) \<Rightarrow> impl_version i
         | Some (ClientParams None) \<Rightarrow> []
         | Some (ImplementationInfo i) \<Rightarrow> impl_version i)
      else if key = ''connection_source'' \<or> key = ''transport_type'' then transport_type context
      else if key = ''user_agent'' then dict_get_default (headers context) ''User-Agent'' []
      else if key = ''remote_address'' then remote_address context
      else if take 7 key = ''header.'' then dict_get_default (headers context) (drop 7 key) []
      else [])"

definition matches_value :: "(string \<Rightarrow> string \<Rightarrow> bool) \<Rightarrow> string \<Rightarrow> string \<Rightarrow> bool" where
  "matches_value fnm actual expected =
     (if expected \<noteq> [] \<and> last expected = CHR ''*'' then fnm actual expected
      else actual = expected)"

definition matches_rule ::
  "(string \<Rightarrow> string \<Rightarrow> bool) \<Rightarrow> ConnectionContext \<Rightarrow> string dict list \<Rightarrow> bool" where
  "matches_rule fnm context conditions =
     list_all (\<lambda>condition.
        list_all (\<lambda>(key, expected_value).
           matches_value fnm (extract_context_value context key) expected_value) condition)
       conditions"

fun identify_client ::
  "(string \<Rightarrow> string \<Rightarrow> bool) \<Rightarrow> ClientRule dict \<Rightarrow> ConnectionContext
     \<Rightarrow> string \<times> ConnectionContext" where
  "identify_client fnm [] context = (''default'', context\<lparr>client_id := Some ''default''\<rparr>)"
| "identify_client fnm ((cid, rule) # rest) context =
     (if matches_rule fnm context (identify_by rule) then (cid, context\<lparr>client_id := Some cid\<rparr>)
      else identify_client fnm rest context)"

section \<open>Namespaced tool names (routing/aggregator.py, routing/router.py, access/middleware.py)\<close>

text \<open>
  The aggregator builds \<open>f"{server_id}.{tool.name}"\<close>; tool names are plain strings.
  \<open>split1 sep s\<close> is \<open>s.split(sep, 1)\<close> for a string that contains \<open>sep\<close>: the text
  before the first separator and the text after it. Resource uris are URL objects of the
  protocol library, which are not strings; their namespacing is not embedded.
\<close>

definition namespace_tool_name :: "string \<Rightarrow> string \<Rightarrow> string" where
  "namespace_tool_name sid n = sid @ ''.'' @ n"

definition split1 :: "char \<Rightarrow> string \<Rightarrow> string \<times> string" where
  "split1 sep s = (takeWhile (\<lambda>c. c \<noteq> sep) s, tl (dropWhile (\<lambda>c. c \<noteq> sep) s))"

definition router_parse_namespaced_tool :: "string \<Rightarrow> exn + string \<times> string" where
  "router_parse_namespaced_tool tool_name =
     (if CHR ''.'' \<in> set tool_name then Inr (split1 (CHR ''.'') tool_name)
      else Inl (ValueError (''Tool name must be namespaced: '' @ tool_name)))"

definition middleware_parse_namespaced_tool :: "string \<Rightarrow> string \<times> string" where
  "middleware_parse_namespaced_tool tool_name =
     (if CHR ''.'' \<in> set tool_name then split1 (CHR ''.'') tool_name
      else (''default'', tool_name))"

section \<open>Protocol values (the library mcp.types)\<close>

text \<open>
  Tool arguments and schemas are JSON values. The error codes are the JSON-RPC codes
  that \<open>mcp.types\<close> exports under these names.
\<close>

datatype json =
    JNull
  | JBool bool
  | JNum int
  | JStr string
  | JArr "json list"
  | JObj "(string \<times> json) list"

record Tool =
  name :: string
  description :: "string option"
  inputSchema :: json

datatype ListToolsResult = ListToolsResult "Tool list"

datatype Content = TextContent string | ImageContent string | EmbeddedResource string

datatype CallToolResult = CallToolResult "Content list" bool

datatype ErrorData = ErrorData int string

definition INVALID_REQUEST :: int where "INVALID_REQUEST = - 32600"
definition METHOD_NOT_FOUND :: int where "METHOD_NOT_FOUND = - 32601"
definition INTERNAL_ERROR :: int where "INTERNAL_ERROR = - 32603"

datatype ServerResult =
    ToolResult CallToolResult
  | ToolsResult ListToolsResult
  | Error ErrorData

datatype ClientRequest =
    CallToolRequest string json
  | ListToolsRequest
  | GetPromptRequest string
  | OtherRequest string

section \<open>Backend sessions (server/process.py)\<close>

text \<open>
  A live client session is modelled by what its backend answers. Every backend call is
  awaited under two nested \<open>asyncio.wait_for\<close> with the same span (the inner one in
  \<open>MCPProcess\<close>, the outer one in the router or the aggregator); when the backend stays
  silent the event loop decides which deadline is observed first, so the answer says it:
  \<open>NoReply Inner\<close> or \<open>NoReply Outer\<close>. \<open>Fails m\<close> is an exception other than
  \<open>asyncio.TimeoutError\<close> whose \<open>str\<close> is \<open>m\<close>.
\<close>

datatype deadline = Inner | Outer

datatype 'r reply = Reply 'r | Fails string | NoReply deadline

record ClientSession =
  list_tools_reply :: "ListToolsResult reply"
  call_tool_reply :: "string \<Rightarrow> json \<Rightarrow> CallToolResult reply"

text \<open>
  What the caller that awaits a process call under its own deadline observes: a value, an
  exception, or its own deadline (\<open>Overdue\<close>: the call is cancelled, and none of the
  callee's handlers runs).
\<close>

datatype 'r awaited = Returned 'r | Raised exn | Overdue

datatype ProcessStatus = STOPPED | STARTING | RUNNING | STOPPING | FAILED | NOT_CONFIGURED

record MCPProcess =
  server_id :: string
  server_config :: ServerConfig
  install_path :: string
  session :: "ClientSession option"
  status :: ProcessStatus
  request_count :: nat
  error_count :: nat

definition MCPProcess_init :: "string \<Rightarrow> ServerConfig \<Rightarrow> string \<Rightarrow> MCPProcess" where
  "MCPProcess_init sid cfg path =
     \<lparr>server_id = sid, server_config = cfg, install_path = path, session = None,
      status = STOPPED, request_count = 0, error_count = 0\<rparr>"

text \<open>
  The collaborators of the supervisor that the core does not implement: the installer
  and the transport start-up of \<open>_start_stdio\<close> (detector, child process, MCP handshake).
  Each is given by its outcome.
\<close>

record environment =
  is_installed :: "string \<Rightarrow> ServerConfig \<Rightarrow> exn + bool"
  get_install_path :: "string \<Rightarrow> ServerConfig \<Rightarrow> exn + string"
  install :: "string \<Rightarrow> ServerConfig \<Rightarrow> exn + string"
  start_stdio :: "string \<Rightarrow> ServerConfig \<Rightarrow> string \<Rightarrow> exn + ClientSession"

definition process_start :: "environment \<Rightarrow> MCPProcess \<Rightarrow> (exn + unit) \<times> MCPProcess" where
  "process_start env p =
     (if status p \<noteq> STOPPED then (Inr (), p)
      else
        (let p1 = p\<lparr>status := STARTING\<rparr> in
         case (case transport (server_config p1) of
                 Stdio \<Rightarrow> start_stdio env (server_id p1) (server_config p1) (install_path p1)
               | Sse \<Rightarrow> Inl (NotImplementedError ''SSE transport not yet implemented'')
               | Websocket \<Rightarrow> Inl (NotImplementedError ''WebSocket transport not yet implemented'')) of
           Inl e \<Rightarrow> (Inl e, p1\<lparr>status := FAILED\<rparr>)
         | Inr s \<Rightarrow> (Inr (), p1\<lparr>session := Some s, status := RUNNING\<rparr>)))"

definition process_call_tool ::
  "string \<Rightarrow> json \<Rightarrow> MCPProcess \<Rightarrow> CallToolResult awaited \<times> MCPProcess" where
  "process_call_tool tool_name arguments p =
     (case session p of
        None \<Rightarrow> (Raised (RuntimeError (''MCP server '' @ server_id p @ '' not running'')), p)
      | Some s \<Rightarrow>
          (let p1 = p\<lparr>request_count := request_count p + 1\<rparr> in
           case call_tool_reply s tool_name arguments of
             Reply r \<Rightarrow> (Returned r, p1)
           | NoReply Outer \<Rightarrow> (Overdue, p1)
           | NoReply Inner \<Rightarrow>
               (Raised (RuntimeError
                  (''Timeout calling tool '' @ tool_name @ '' on server '' @ server_id p)),
                p1\<lparr>error_count := error_count p1 + 1\<rparr>)
           | Fails m \<Rightarrow>
               (Raised (RuntimeError
                  (''Error calling tool '' @ tool_name @ '' on server '' @ server_id p @ '': '' @ m)),
                p1\<lparr>error_count := error_count p1 + 1\<rparr>)))"

definition process_list_tools :: "MCPProcess \<Rightarrow> ListToolsResult awaited" where
  "process_list_tools p =
     (case session p of
        None \<Rightarrow> Raised (RuntimeError (''MCP server '' @ server_id p @ '' not running''))
      | Some s \<Rightarrow>
          (case list_tools_reply s of
             Reply r \<Rightarrow> Returned r
           | NoReply Outer \<Rightarrow> Overdue
           | NoReply Inner \<Rightarrow>
               Raised (RuntimeError (''Timeout listing tools from server '' @ server_id p))
           | Fails m \<Rightarrow>
               Raised (RuntimeError
                 (''Error listing tools from server '' @ server_id p @ '': '' @ m))))"

section \<open>Process supervisor (server/manager.py)\<close>

record MCPServerManager =
  config :: MCPManagerConfig
  processes :: "MCPProcess dict"

definition ensure_server_installed ::
  "environment \<Rightarrow> string \<Rightarrow> ServerConfig \<Rightarrow> exn + string" where
  "ensure_server_installed env sid cfg =
     (case is_installed env sid cfg of
        Inl e \<Rightarrow> Inl e
      | Inr installed \<Rightarrow>
          if installed \<and> \<not> auto_install cfg then get_install_path env sid cfg
          else if auto_install cfg then install env sid cfg
          else get_install_path env sid cfg)"

definition start_server ::
  "environment \<Rightarrow> string \<Rightarrow> MCPServerManager \<Rightarrow> (exn + unit) \<times> MCPServerManager" where
  "start_server env sid m =
     (if sid \<in> fst ` set (processes m) then (Inr (), m)
      else
        (case map_of (servers (config m)) sid of
           None \<Rightarrow> (Inl (ValueError (''Server '' @ sid @ '' not configured'')), m)
         | Some cfg \<Rightarrow>
             if \<not> enabled cfg then (Inr (), m)
             else
               (case ensure_server_installed env sid cfg of
                  Inl e \<Rightarrow> (Inl e, m)
                | Inr path \<Rightarrow>
                    (case process_start env (MCPProcess_init sid cfg path) of
                       (Inl e, p) \<Rightarrow> (Inl e, m)
                     | (Inr u, p) \<Rightarrow>
                         (Inr (), m\<lparr>processes := AList.update sid p (processes m)\<rparr>)))))"

definition get_active_sessions :: "MCPServerManager \<Rightarrow> MCPProcess dict" where
  "get_active_sessions m =
     filter (\<lambda>(sid, p). status p = RUNNING \<and> session p \<noteq> None) (processes m)"

definition manager_call_tool ::
  "string \<Rightarrow> string \<Rightarrow> json \<Rightarrow> MCPServerManager \<Rightarrow> CallToolResult awaited \<times> MCPServerManager" where
  "manager_call_tool sid tool_name arguments m =
     (case map_of (processes m) sid of
        None \<Rightarrow> (Raised (ValueError (''Server '' @ sid @ '' not running'')), m)
      | Some p \<Rightarrow>
          (case process_call_tool tool_name arguments p of
             (r, p') \<Rightarrow> (r, m\<lparr>processes := AList.update sid p' (processes m)\<rparr>)))"

section \<open>Response aggregator (routing/aggregator.py)\<close>

text \<open>
  An f-string renders a missing description (\<open>None\<close>) as the text \<open>None\<close>.
\<close>

definition namespaced_tool :: "string \<Rightarrow> Tool \<Rightarrow> Tool" where
  "namespaced_tool sid tool =
     \<lparr>name = sid @ ''.'' @ name tool,
      description =
        Some (''['' @ sid @ ''] '' @ (case description tool of None \<Rightarrow> ''None'' | Some d \<Rightarrow> d)),
      inputSchema = inputSchema tool\<rparr>"

definition get_server_tools :: "string \<Rightarrow> MCPProcess \<Rightarrow> exn + ListToolsResult" where
  "get_server_tools sid p =
     (case process_list_tools p of
        Returned r \<Rightarrow> Inr r
      | Overdue \<Rightarrow> Inl (Exception (''Timeout getting tools from '' @ sid))
      | Raised e \<Rightarrow> Inl (Exception (''Error getting tools from '' @ sid @ '': '' @ str_exn e)))"

text \<open>
  \<open>asyncio.gather(..., return_exceptions=True)\<close> returns one result per task, in the
  order of the sessions; the loop over \<open>zip(backend_sessions.keys(), results)\<close> skips the
  exceptions and namespaces the tools of every other result.
\<close>

fun collect_tools :: "(string \<times> (exn + ListToolsResult)) list \<Rightarrow> Tool list" where
  "collect_tools [] = []"
| "collect_tools ((sid, Inl e) # rest) = collect_tools rest"
| "collect_tools ((sid, Inr (ListToolsResult ts)) # rest) =
     map (namespaced_tool sid) ts @ collect_tools rest"

definition aggregate_tools :: "MCPServerManager \<Rightarrow> Tool list" where
  "aggregate_tools m =
     (let backend_sessions = get_active_sessions m in
      if backend_sessions = [] then []
      else
        (let results = map (\<lambda>(sid, p). get_server_tools sid p) backend_sessions
         in collect_tools (zip (map fst backend_sessions) results)))"

text \<open>
  The three kinds of backend behind a session, by what it answers to the list call: it
  answers, it raises, or it stays silent until a deadline; and the tools an answering
  backend lists.
\<close>

definition answers :: "MCPProcess \<Rightarrow> bool" where
  "answers p \<longleftrightarrow> (case session p of None \<Rightarrow> False | Some s \<Rightarrow> (case list_tools_reply s of Reply r \<Rightarrow> True | _ \<Rightarrow> False))"

definition raises :: "MCPProcess \<Rightarrow> bool" where
  "raises p \<longleftrightarrow> (case session p of None \<Rightarrow> False | Some s \<Rightarrow> (case list_tools_reply s of Fails r \<Rightarrow> True | _ \<Rightarrow> False))"

definition times_out :: "MCPProcess \<Rightarrow> bool" where
  "times_out p \<longleftrightarrow> (case session p of None \<Rightarrow> False | Some s \<Rightarrow> (case list_tools_reply s of NoReply r \<Rightarrow> True | _ \<Rightarrow> False))"

definition listed_tools :: "MCPProcess \<Rightarrow> Tool list" where
  "listed_tools p =
     (case session p of
        None \<Rightarrow> []
      | Some s \<Rightarrow> (case list_tools_reply s of Reply (ListToolsResult ts) \<Rightarrow> ts | _ \<Rightarrow> []))"

section \<open>Router (routing/router.py)\<close>

text \<open>
  The router holds the supervisor, the permission engine (its client rules) and the
  response cache. \<open>generate_cache_key\<close> is an MD5 digest of a JSON serialisation; the
  digest is a parameter (\<open>keyfn\<close>), as \<open>fnm\<close> is. A tool call reads the clock when it
  looks the cache up (\<open>t_get\<close>) and when it stores the result (\<open>t_set\<close>).
  Of the request kinds, the tool call, the tool listing, the prompt lookup and the
  unsupported kinds (by their type name) are embedded; the resource requests and the
  prompt listing are not, and no property below reads them.
\<close>

record MCPRouter =
  server_manager :: MCPServerManager
  client_rules :: "ClientRule dict"
  response_cache :: "ServerResult ResponseCache"

text \<open>
  The three \<open>except\<close> clauses of \<open>_route_tool_call\<close>, in their order:
  \<open>asyncio.TimeoutError\<close>, \<open>ValueError\<close>, any other exception.
\<close>

definition tool_call_error :: "string \<Rightarrow> exn \<Rightarrow> ServerResult" where
  "tool_call_error tool_name e =
     (case e of
        TimeoutError \<Rightarrow> Error (ErrorData INTERNAL_ERROR (''Tool call timeout: '' @ tool_name))
      | ValueError m \<Rightarrow> Error (ErrorData INVALID_REQUEST m)
      | _ \<Rightarrow> Error (ErrorData INTERNAL_ERROR (''Backend error: '' @ str_exn e)))"

definition route_tool_call ::
  "(string \<Rightarrow> string \<Rightarrow> json \<Rightarrow> string) \<Rightarrow> int \<Rightarrow> int \<Rightarrow> string \<Rightarrow> json \<Rightarrow> MCPRouter
     \<Rightarrow> (exn + ServerResult) \<times> MCPRouter" where
  "route_tool_call keyfn t_get t_set tool_name arguments r =
     (case router_parse_namespaced_tool tool_name of
        Inl e \<Rightarrow> (Inl e, r)
      | Inr (sid, actual_tool_name) \<Rightarrow>
          (let cache_key = keyfn sid ''call_tool''
                 (JObj [(''name'', JStr actual_tool_name), (''arguments'', arguments)])
           in case cache_get t_get cache_key (response_cache r) of
                Inl e \<Rightarrow> (Inl e, r)
              | Inr (Some cached_result, c1) \<Rightarrow> (Inr cached_result, r\<lparr>response_cache := c1\<rparr>)
              | Inr (None, c1) \<Rightarrow>
                  (case manager_call_tool sid actual_tool_name arguments (server_manager r) of
                     (Overdue, m1) \<Rightarrow>
                       (Inr (tool_call_error tool_name TimeoutError),
                        r\<lparr>server_manager := m1, response_cache := c1\<rparr>)
                   | (Raised e, m1) \<Rightarrow>
                       (Inr (tool_call_error tool_name e),
                        r\<lparr>server_manager := m1, response_cache := c1\<rparr>)
                   | (Returned res, m1) \<Rightarrow>
                       (case cache_set t_set cache_key (ToolResult res) (Some 300) c1 of
                          (Some e, c2) \<Rightarrow>
                            (Inr (tool_call_error tool_name e),
                             r\<lparr>server_manager := m1, response_cache := c2\<rparr>)
                        | (None, c2) \<Rightarrow>
                            (Inr (ToolResult res),
                             r\<lparr>server_manager := m1, response_cache := c2\<rparr>)))))"

fun filter_listed_tools ::
  "(string \<Rightarrow> string \<Rightarrow> bool) \<Rightarrow> ClientRule dict \<Rightarrow> string \<Rightarrow> Tool list \<Rightarrow> exn + Tool list" where
  "filter_listed_tools fnm rules cid [] = Inr []"
| "filter_listed_tools fnm rules cid (tool # rest) =
     (case router_parse_namespaced_tool (name tool) of
        Inl e \<Rightarrow> Inl e
      | Inr (sid, actual_tool_name) \<Rightarrow>
          (case filter_listed_tools fnm rules cid rest of
             Inl e \<Rightarrow> Inl e
           | Inr filtered \<Rightarrow>
               Inr (if check_tool_access fnm rules cid sid actual_tool_name
                    then tool # filtered else filtered)))"

definition route_list_tools :: "(string \<Rightarrow> string \<Rightarrow> bool) \<Rightarrow> string \<Rightarrow> MCPRouter \<Rightarrow> ServerResult" where
  "route_list_tools fnm cid r =
     (case filter_listed_tools fnm (client_rules r) cid (aggregate_tools (server_manager r)) of
        Inl e \<Rightarrow> Error (ErrorData INTERNAL_ERROR (''Error listing tools: '' @ str_exn e))
      | Inr filtered_tools \<Rightarrow> ToolsResult (ListToolsResult filtered_tools))"

definition route_get_prompt :: "string \<Rightarrow> exn + ServerResult" where
  "route_get_prompt prompt_name =
     (case router_parse_namespaced_tool prompt_name of
        Inl e \<Rightarrow> Inl e
      | Inr (sid, actual_prompt_name) \<Rightarrow>
          Inr (Error (ErrorData METHOD_NOT_FOUND ''Get prompt not yet implemented'')))"

definition or_default :: "string option \<Rightarrow> string" where
  "or_default x = (case x of None \<Rightarrow> ''default'' | Some v \<Rightarrow> if v = [] then ''default'' else v)"

definition route_request ::
  "(string \<Rightarrow> string \<Rightarrow> bool) \<Rightarrow> (string \<Rightarrow> string \<Rightarrow> json \<Rightarrow> string) \<Rightarrow> int \<Rightarrow> int
     \<Rightarrow> ClientRequest \<Rightarrow> ConnectionContext \<Rightarrow> MCPRouter \<Rightarrow> ServerResult \<times> MCPRouter" where
  "route_request fnm keyfn t_get t_set request context r =
     (let cid = or_default (client_id context) in
      case (case request of
              CallToolRequest tool_name arguments \<Rightarrow>
                route_tool_call keyfn t_get t_set tool_name arguments r
            | ListToolsRequest \<Rightarrow> (Inr (route_list_tools fnm cid r), r)
            | GetPromptRequest prompt_name \<Rightarrow> (route_get_prompt prompt_name, r)
            | OtherRequest type_name \<Rightarrow>
                (Inr (Error (ErrorData METHOD_NOT_FOUND
                   (''Unsupported request type: '' @ type_name))), r)) of
        (Inl e, r') \<Rightarrow>
          (Error (ErrorData INTERNAL_ERROR (''Internal routing error: '' @ str_exn e)), r')
      | (Inr result, r') \<Rightarrow> (result, r'))"

section \<open>Access-control middleware (access/middleware.py)\<close>

definition check_tool_call ::
  "(string \<Rightarrow> string \<Rightarrow> bool) \<Rightarrow> ClientRule dict \<Rightarrow> string \<Rightarrow> string \<Rightarrow> bool \<times> ErrorData option" where
  "check_tool_call fnm rules tool_name cid =
     (case middleware_parse_namespaced_tool tool_name of
        (sid, actual_tool_name) \<Rightarrow>
          if \<not> check_tool_access fnm rules cid sid actual_tool_name
          then (False, Some (ErrorData INVALID_REQUEST (''Access denied to tool: '' @ tool_name)))
          else (True, None))"

definition process_request ::
  "(string \<Rightarrow> string \<Rightarrow> bool) \<Rightarrow> ClientRule dict \<Rightarrow> ClientRequest \<Rightarrow> ConnectionContext
     \<Rightarrow> (bool \<times> ErrorData option) \<times> ConnectionContext" where
  "process_request fnm rules request context =
     (let context1 =
            (if client_id context = None \<or> client_id context = Some []
             then snd (identify_client fnm rules context) else context);
          cid = or_default (client_id context1)
      in case request of
           CallToolRequest tool_name arguments \<Rightarrow> (check_tool_call fnm rules tool_name cid, context1)
         | _ \<Rightarrow> ((True, None), context1))"

section \<open>Front-end handler (core/manager.py)\<close>

text \<open>
  The request context of the front-end server: no session, a session without client
  parameters, or client parameters whose \<open>clientInfo\<close> may be missing.
\<close>

datatype ServerSession = ServerSession "Implementation option option"

datatype RequestContext = RequestContext "ServerSession option"

definition create_connection_context :: "RequestContext \<Rightarrow> ConnectionContext" where
  "create_connection_context ctx =
     (let context0 =
            (case ctx of
               RequestContext (Some (ServerSession (Some client_params))) \<Rightarrow>
                 (let c = ConnectionContext_init\<lparr>client_info := Some (ClientParams client_params)\<rparr>
                  in case client_params of
                       Some i \<Rightarrow> c\<lparr>client_id := Some (impl_name i)\<rparr>
                     | None \<Rightarrow> c)
             | _ \<Rightarrow> ConnectionContext_init);
          context1 =
            (if client_id context0 = None \<or> client_id context0 = Some []
             then context0\<lparr>client_id := Some ''default''\<rparr> else context0)
      in context1\<lparr>transport_type := ''stdio''\<rparr>)"

text \<open>
  The handler never propagates an exception: reading \<open>message\<close> of a missing error
  response is the only one the embedded path could raise, and the outer \<open>except\<close> turns
  it into a text block.
\<close>

definition handler_call_tool ::
  "(string \<Rightarrow> string \<Rightarrow> bool) \<Rightarrow> (string \<Rightarrow> string \<Rightarrow> json \<Rightarrow> string) \<Rightarrow> int \<Rightarrow> int
     \<Rightarrow> RequestContext \<Rightarrow> string \<Rightarrow> json \<Rightarrow> MCPRouter \<Rightarrow> Content list \<times> MCPRouter" where
  "handler_call_tool fnm keyfn t_get t_set ctx tool_name arguments r =
     (let context = create_connection_context ctx;
          request = CallToolRequest tool_name arguments
      in case process_request fnm (client_rules r) request context of
           ((allowed, error_response), context1) \<Rightarrow>
             if \<not> allowed then
               (case error_response of
                  Some (ErrorData c msg) \<Rightarrow> ([TextContent (''Access denied: '' @ msg)], r)
                | None \<Rightarrow>
                    ([TextContent (''Internal error: '' @ [CHR 0x27] @ ''NoneType'' @ [CHR 0x27]
                        @ '' object has no attribute '' @ [CHR 0x27] @ ''message'' @ [CHR 0x27])], r))
             else
               (case route_request fnm keyfn t_get t_set request context1 r of
                  (ToolResult (CallToolResult content is_error), r') \<Rightarrow> (content, r')
                | (Error (ErrorData c msg), r') \<Rightarrow> ([TextContent (''Error: '' @ msg)], r')
                | (ToolsResult x, r') \<Rightarrow> ([TextContent ''Unknown error occurred''], r')))"

section \<open>Properties of the response cache\<close>

lemma dict_del_present:
  "k \<in> fst ` set d \<Longrightarrow> dict_del d k = Inr (AList.delete k d)"
  by (simp add: dict_del_def)




lemma distinct_filter_keys:
  "distinct (map fst d) \<Longrightarrow> distinct (map fst (filter P d))"
  by (simp add: distinct_map_filter)











lemma cache_get_total:
  "\<exists>r c'. cache_get now k c = Inr (r, c')"
proof (cases "map_of (cache c) k")
  case None
  then show ?thesis by (simp add: cache_get_def)
next
  case (Some e)
  then have "k \<in> fst ` set (cache c)" by (metis map_of_eq_None_iff option.distinct(1))
  then show ?thesis using Some by (simp add: cache_get_def dict_del_present)
qed




subsection \<open>Lookup\<close>

text \<open>
  Claim C3. For a key that is present with entry \<open>e\<close>: \<open>get\<close> returns the stored payload
  when \<open>now\<close> is before the expiry time and leaves the cache as it is; when the entry is
  expired (\<open>is_expired\<close>: \<open>now\<close> is after the expiry time) it deletes the entry and
  returns a miss. For an absent key it returns a miss and leaves the cache as it is. In
  every case \<open>get\<close> returns: it never raises.
\<close>

theorem cache_get_contract:
  "(map_of (cache c) k = Some e \<and> now < expires_at e \<longrightarrow>
      cache_get now k c = Inr (Some (data e), c))
   \<and> (map_of (cache c) k = Some e \<and> is_expired now e \<longrightarrow>
      cache_get now k c = Inr (None, c\<lparr>cache := AList.delete k (cache c)\<rparr>)
      \<and> map_of (AList.delete k (cache c)) k = None)
   \<and> (map_of (cache c) k = None \<longrightarrow> cache_get now k c = Inr (None, c))
   \<and> (\<exists>r c'. cache_get now k c = Inr (r, c'))"
proof (intro conjI impI)
  assume "map_of (cache c) k = Some e \<and> now < expires_at e"
  then show "cache_get now k c = Inr (Some (data e), c)"
    by (simp add: cache_get_def is_expired_def)
next
  assume a: "map_of (cache c) k = Some e \<and> is_expired now e"
  then have "k \<in> fst ` set (cache c)"
    by (metis map_of_eq_None_iff option.distinct(1))
  then show "cache_get now k c = Inr (None, c\<lparr>cache := AList.delete k (cache c)\<rparr>)"
    using a by (simp add: cache_get_def dict_del_present)
next
  show "map_of (AList.delete k (cache c)) k = None"
    by (simp add: delete_conv')
next
  assume "map_of (cache c) k = None"
  then show "cache_get now k c = Inr (None, c)"
    by (simp add: cache_get_def)
next
  show "\<exists>r c'. cache_get now k c = Inr (r, c')"
    by (rule cache_get_total)
qed

text \<open>
  The comparison in \<open>is_expired\<close> is strict: at the expiry time itself the payload
  is still returned.
\<close>

lemma cache_get_at_expiry:
  "map_of (cache c) k = Some e \<Longrightarrow> now = expires_at e \<Longrightarrow>
   cache_get now k c = Inr (Some (data e), c)"
  by (simp add: cache_get_def is_expired_def)

text \<open>The three cases of C3 on a cache with one entry that expires at time 10.\<close>

theorem cache_get_contract_witness:
  "cache_get 5 ''a'' \<lparr>cache = [(''a'', \<lparr>data = (7::nat), created_at = 0, expires_at = 10\<rparr>)],
                        max_size = 1000, default_ttl = 300\<rparr>
     = Inr (Some 7, \<lparr>cache = [(''a'', \<lparr>data = 7, created_at = 0, expires_at = 10\<rparr>)],
                      max_size = 1000, default_ttl = 300\<rparr>)
   \<and> cache_get 11 ''a'' \<lparr>cache = [(''a'', \<lparr>data = (7::nat), created_at = 0, expires_at = 10\<rparr>)],
                        max_size = 1000, default_ttl = 300\<rparr>
     = Inr (None, \<lparr>cache = [], max_size = 1000, default_ttl = 300\<rparr>)
   \<and> cache_get 5 ''b'' \<lparr>cache = [(''a'', \<lparr>data = (7::nat), created_at = 0, expires_at = 10\<rparr>)],
                        max_size = 1000, default_ttl = 300\<rparr>
     = Inr (None, \<lparr>cache = [(''a'', \<lparr>data = 7, created_at = 0, expires_at = 10\<rparr>)],
                   max_size = 1000, default_ttl = 300\<rparr>)"
proof -
  let ?e = "\<lparr>data = (7::nat), created_at = 0, expires_at = 10\<rparr>"
  let ?c = "\<lparr>cache = [(''a'', ?e)], max_size = 1000, default_ttl = 300\<rparr>"
  have h1: "map_of (cache ?c) ''a'' = Some ?e \<and> 5 < expires_at ?e" by simp
  have h2: "map_of (cache ?c) ''a'' = Some ?e \<and> is_expired 11 ?e" by (simp add: is_expired_def)
  have h3: "map_of (cache ?c) ''b'' = None" by simp
  from cache_get_contract [of ?c "''a''" ?e 5] h1
  have r1: "cache_get 5 ''a'' ?c = Inr (Some (data ?e), ?c)" by blast
  from cache_get_contract [of ?c "''a''" ?e 11] h2
  have r2: "cache_get 11 ''a'' ?c = Inr (None, ?c\<lparr>cache := AList.delete ''a'' (cache ?c)\<rparr>)" by blast
  from cache_get_contract [of ?c "''b''" ?e 5] h3
  have r3: "cache_get 5 ''b'' ?c = Inr (None, ?c)" by blast
  from r1 r2 r3 show ?thesis by (simp add: AList.delete_eq)
qed

subsection \<open>Size bound and eviction\<close>




text \<open>The two messages of a time to live that is not a \<open>timedelta\<close>.\<close>

lemma timedelta_seconds_day_range:
  "timedelta_seconds 86400000000000
     = Inl (OverflowError ''days=1000000000; must have magnitude <= 999999999'')"
  by (simp add: timedelta_seconds_def str_int_def decimal.simps decimal_digit_def)

lemma timedelta_seconds_c_int:
  "timedelta_seconds 1000000000000000
     = Inl (OverflowError ''Python int too large to convert to C int'')"
  by (simp add: timedelta_seconds_def)






section \<open>Properties of the permission engine\<close>

lemma wildcard_match_iff: "wildcard_match fnm item patterns \<longleftrightarrow> (\<exists>p\<in>set patterns. fnm item p)"
  by (induction patterns) auto

lemma matches_access_rule_tools:
  "matches_access_rule fnm rule sid item ''tools'' \<longleftrightarrow>
     server rule = sid \<and>
     (tools rule = None \<or> tools rule = Some [] \<or>
      (\<exists>items. tools rule = Some items \<and>
         (item \<in> set items \<or> ''*'' \<in> set items \<or> (\<exists>p\<in>set items. fnm item p))))"
  by (auto simp: matches_access_rule_def wildcard_match_iff split: option.splits list.splits)

text \<open>
  Claim C1. Let \<open>rule\<close> be the client rule resolved for the client id (its own rule, or
  the rule \<open>default\<close> when it has none). If some rule of the deny list names the server
  and its tool list is missing, empty, contains the tool name, contains the literal
  \<open>*\<close>, or contains a pattern that matches the tool name as a shell-style wildcard,
  then \<open>check_tool_access\<close> is false, whatever the allow list holds.
\<close>

theorem deny_precedence:
  assumes "map_of rules cid = Some rule
           \<or> (map_of rules cid = None \<and> map_of rules ''default'' = Some rule)"
    and "d \<in> set (deny rule)"
    and "server d = sid"
    and "tools d = None \<or> tools d = Some []
         \<or> (\<exists>items. tools d = Some items \<and>
               (tool_name \<in> set items \<or> ''*'' \<in> set items \<or> (\<exists>p\<in>set items. fnm tool_name p)))"
  shows "check_tool_access fnm rules cid sid tool_name = False"
proof -
  have r: "resolve_rule rules cid = Some rule"
    using assms(1) by (auto simp: resolve_rule_def)
  have "matches_access_rule fnm d sid tool_name ''tools''"
    using assms(3,4) by (simp add: matches_access_rule_tools)
  then have "list_ex (\<lambda>deny_rule. matches_access_rule fnm deny_rule sid tool_name ''tools'') (deny rule)"
    using assms(2) by (auto simp: list_ex_iff)
  then show ?thesis
    by (simp add: check_tool_access_def r)
qed

text \<open>
  A deny pattern \<open>write_*\<close> beats an allow rule for the whole server; a tool the pattern
  does not match is still allowed.
\<close>

theorem deny_precedence_witness:
  "check_tool_access fnmatch_plain
     [(''default'',
       \<lparr>identify_by = [], 
        allow = [\<lparr>server = ''fs'', tools = None, resources = None\<rparr>],
        deny = [\<lparr>server = ''fs'', tools = Some [''write_*''], resources = None\<rparr>],
        deny_all_except_allowed = False\<rparr>)]
     ''guest'' ''fs'' ''write_file'' = False
   \<and> check_tool_access fnmatch_plain
     [(''default'',
       \<lparr>identify_by = [], 
        allow = [\<lparr>server = ''fs'', tools = None, resources = None\<rparr>],
        deny = [\<lparr>server = ''fs'', tools = Some [''write_*''], resources = None\<rparr>],
        deny_all_except_allowed = False\<rparr>)]
     ''guest'' ''fs'' ''read_file'' = True"
proof -
  let ?d = "\<lparr>server = ''fs'', tools = Some [''write_*''], resources = None\<rparr>"
  let ?rule = "\<lparr>identify_by = [], 
        allow = [\<lparr>server = ''fs'', tools = None, resources = None\<rparr>],
        deny = [?d], deny_all_except_allowed = False\<rparr>"
  let ?rules = "[(''default'', ?rule)]"
  have h1: "map_of ?rules ''guest'' = Some ?rule
           \<or> (map_of ?rules ''guest'' = None \<and> map_of ?rules ''default'' = Some ?rule)" by simp
  have h2: "?d \<in> set (deny ?rule)" by simp
  have h3: "server ?d = ''fs''" by simp
  have h4: "tools ?d = None \<or> tools ?d = Some []
         \<or> (\<exists>items. tools ?d = Some items \<and>
               (''write_file'' \<in> set items \<or> ''*'' \<in> set items
                \<or> (\<exists>p\<in>set items. fnmatch_plain ''write_file'' p)))" by simp
  have "check_tool_access fnmatch_plain ?rules ''guest'' ''fs'' ''write_file'' = False"
    using deny_precedence [where rules = ?rules and cid = "''guest''" and rule = ?rule and d = ?d
        and sid = "''fs''" and tool_name = "''write_file''" and fnm = fnmatch_plain] h1 h2 h3 h4
    by blast
  moreover have "check_tool_access fnmatch_plain ?rules ''guest'' ''fs'' ''read_file'' = True"
    by (simp add: check_tool_access_def resolve_rule_def matches_access_rule_def)
  ultimately show ?thesis by simp
qed

section \<open>Properties of the client identifier\<close>

lemma identify_client_none:
  "\<forall>j<length rules. \<not> matches_rule fnm ctx (identify_by (snd (rules ! j))) \<Longrightarrow>
   identify_client fnm rules ctx = (''default'', ctx\<lparr>client_id := Some ''default''\<rparr>)"
proof (induction rules)
  case Nil
  then show ?case by simp
next
  case (Cons r rules)
  obtain cid rule where r: "r = (cid, rule)" by (cases r)
  have "\<not> matches_rule fnm ctx (identify_by rule)"
    using Cons.prems r by (metis length_greater_0_conv list.discI nth_Cons_0 snd_conv)
  moreover have "\<forall>j<length rules. \<not> matches_rule fnm ctx (identify_by (snd (rules ! j)))"
    using Cons.prems by (metis Suc_less_eq length_Cons nth_Cons_Suc)
  ultimately show ?case using Cons.IH r by simp
qed

lemma identify_client_first:
  "i < length rules \<Longrightarrow> matches_rule fnm ctx (identify_by (snd (rules ! i))) \<Longrightarrow>
   \<forall>j<i. \<not> matches_rule fnm ctx (identify_by (snd (rules ! j))) \<Longrightarrow>
   identify_client fnm rules ctx = (fst (rules ! i), ctx\<lparr>client_id := Some (fst (rules ! i))\<rparr>)"
proof (induction rules arbitrary: i)
  case Nil
  then show ?case by simp
next
  case (Cons r rules)
  obtain cid rule where r: "r = (cid, rule)" by (cases r)
  show ?case
  proof (cases i)
    case 0
    then show ?thesis using Cons.prems r by simp
  next
    case (Suc i')
    have "\<not> matches_rule fnm ctx (identify_by rule)"
      using Cons.prems(3) Suc r by (metis nth_Cons_0 snd_conv zero_less_Suc)
    moreover have "i' < length rules" using Cons.prems(1) Suc by simp
    moreover have "matches_rule fnm ctx (identify_by (snd (rules ! i')))"
      using Cons.prems(2) Suc by simp
    moreover have "\<forall>j<i'. \<not> matches_rule fnm ctx (identify_by (snd (rules ! j)))"
      using Cons.prems(3) Suc by (metis Suc_less_eq nth_Cons_Suc)
    ultimately show ?thesis using Cons.IH [of i'] r Suc by simp
  qed
qed

lemma matches_rule_iff:
  "matches_rule fnm ctx conditions \<longleftrightarrow>
     (\<forall>condition\<in>set conditions. \<forall>(key, expected)\<in>set condition.
        matches_value fnm (extract_context_value ctx key) expected)"
  by (simp add: matches_rule_def list_all_iff)

text \<open>
  Claim C8. \<open>identify_client\<close> returns the id of the first rule, in the order of the
  table, whose \<open>identify_by\<close> conditions all match, and \<open>default\<close> when no rule matches;
  the id it returns is stored in the context. A rule matches when every pair of every
  condition matches; an expected value that ends in \<open>*\<close> is matched as a shell-style
  wildcard, any other by equality; and a value the context does not have (no client
  info, no such header) is the empty string.
\<close>

theorem identify_client_first_match:
  "(i < length rules \<and> matches_rule fnm ctx (identify_by (snd (rules ! i)))
      \<and> (\<forall>j<i. \<not> matches_rule fnm ctx (identify_by (snd (rules ! j))))
    \<longrightarrow> identify_client fnm rules ctx
          = (fst (rules ! i), ctx\<lparr>client_id := Some (fst (rules ! i))\<rparr>))
   \<and> ((\<forall>j<length rules. \<not> matches_rule fnm ctx (identify_by (snd (rules ! j))))
    \<longrightarrow> identify_client fnm rules ctx = (''default'', ctx\<lparr>client_id := Some ''default''\<rparr>))
   \<and> (matches_rule fnm ctx conditions \<longleftrightarrow>
        (\<forall>condition\<in>set conditions. \<forall>(key, expected)\<in>set condition.
           matches_value fnm (extract_context_value ctx key) expected))
   \<and> matches_value fnm actual (pat @ ''*'') = fnm actual (pat @ ''*'')
   \<and> (expected = [] \<or> last expected \<noteq> CHR ''*''
        \<longrightarrow> matches_value fnm actual expected = (actual = expected))
   \<and> (client_info ctx = None \<longrightarrow>
        extract_context_value ctx ''client_info.name'' = []
        \<and> extract_context_value ctx ''client_info.version'' = [])
   \<and> (map_of (headers ctx) ''User-Agent'' = None \<longrightarrow> extract_context_value ctx ''user_agent'' = [])
   \<and> (map_of (headers ctx) h = None \<longrightarrow> extract_context_value ctx (''header.'' @ h) = [])"
proof (intro conjI impI)
  assume "i < length rules \<and> matches_rule fnm ctx (identify_by (snd (rules ! i)))
      \<and> (\<forall>j<i. \<not> matches_rule fnm ctx (identify_by (snd (rules ! j))))"
  then show "identify_client fnm rules ctx
          = (fst (rules ! i), ctx\<lparr>client_id := Some (fst (rules ! i))\<rparr>)"
    using identify_client_first [of i rules fnm ctx] by blast
next
  assume "\<forall>j<length rules. \<not> matches_rule fnm ctx (identify_by (snd (rules ! j)))"
  then show "identify_client fnm rules ctx = (''default'', ctx\<lparr>client_id := Some ''default''\<rparr>)"
    by (rule identify_client_none)
next
  show "matches_rule fnm ctx conditions \<longleftrightarrow>
        (\<forall>condition\<in>set conditions. \<forall>(key, expected)\<in>set condition.
           matches_value fnm (extract_context_value ctx key) expected)"
    by (rule matches_rule_iff)
next
  show "matches_value fnm actual (pat @ ''*'') = fnm actual (pat @ ''*'')"
    by (simp add: matches_value_def)
next
  assume "expected = [] \<or> last expected \<noteq> CHR ''*''"
  then show "matches_value fnm actual expected = (actual = expected)"
    by (auto simp: matches_value_def)
next
  assume "client_info ctx = None"
  then show "extract_context_value ctx ''client_info.name'' = []"
    by (simp add: extract_context_value_def)
next
  assume "client_info ctx = None"
  then show "extract_context_value ctx ''client_info.version'' = []"
    by (simp add: extract_context_value_def)
next
  assume "map_of (headers ctx) ''User-Agent'' = None"
  then show "extract_context_value ctx ''user_agent'' = []"
    by (simp add: extract_context_value_def dict_get_default_def)
next
  assume "map_of (headers ctx) h = None"
  then show "extract_context_value ctx (''header.'' @ h) = []"
    by (simp add: extract_context_value_def dict_get_default_def)
qed

text \<open>
  The rule \<open>ide\<close> identifies by \<open>client_info.name: claude*\<close>: the client
  \<open>claude-desktop\<close> resolves to \<open>ide\<close>, the client \<open>vscode\<close> to \<open>default\<close>. The empty
  string matches the pattern \<open>*\<close> and fails an exact match.
\<close>

theorem identify_client_first_match_witness:
  "identify_client fnmatch_plain
     [(''ide'', \<lparr>identify_by = [[(''client_info.name'', ''claude*'')]], allow = [], deny = [],
                 deny_all_except_allowed = False\<rparr>)]
     \<lparr>client_info = Some (ImplementationInfo \<lparr>impl_name = ''claude-desktop'', impl_version = ''1''\<rparr>),
      transport_type = ''stdio'', headers = [], remote_address = [], client_id = None\<rparr>
   = (''ide'',
      \<lparr>client_info = Some (ImplementationInfo \<lparr>impl_name = ''claude-desktop'', impl_version = ''1''\<rparr>),
       transport_type = ''stdio'', headers = [], remote_address = [], client_id = Some ''ide''\<rparr>)
   \<and> identify_client fnmatch_plain
     [(''ide'', \<lparr>identify_by = [[(''client_info.name'', ''claude*'')]], allow = [], deny = [],
                 deny_all_except_allowed = False\<rparr>)]
     \<lparr>client_info = Some (ImplementationInfo \<lparr>impl_name = ''vscode'', impl_version = ''1''\<rparr>),
      transport_type = ''stdio'', headers = [], remote_address = [], client_id = None\<rparr>
   = (''default'',
      \<lparr>client_info = Some (ImplementationInfo \<lparr>impl_name = ''vscode'', impl_version = ''1''\<rparr>),
       transport_type = ''stdio'', headers = [], remote_address = [], client_id = Some ''default''\<rparr>)
   \<and> matches_value fnmatch_plain [] ''*''
   \<and> \<not> matches_value fnmatch_plain [] ''curl''"
proof -
  let ?rules = "[(''ide'', \<lparr>identify_by = [[(''client_info.name'', ''claude*'')]], allow = [], deny = [],
                 deny_all_except_allowed = False\<rparr>)]"
  let ?c1 = "\<lparr>client_info = Some (ImplementationInfo \<lparr>impl_name = ''claude-desktop'', impl_version = ''1''\<rparr>),
      transport_type = ''stdio'', headers = [], remote_address = [], client_id = None\<rparr>"
  let ?c2 = "\<lparr>client_info = Some (ImplementationInfo \<lparr>impl_name = ''vscode'', impl_version = ''1''\<rparr>),
      transport_type = ''stdio'', headers = [], remote_address = [], client_id = None\<rparr>"
  have h1: "0 < length ?rules \<and> matches_rule fnmatch_plain ?c1 (identify_by (snd (?rules ! 0)))
      \<and> (\<forall>j<0. \<not> matches_rule fnmatch_plain ?c1 (identify_by (snd (?rules ! j))))"
    by (simp add: matches_rule_def matches_value_def extract_context_value_def)
  have h2: "\<forall>j<length ?rules. \<not> matches_rule fnmatch_plain ?c2 (identify_by (snd (?rules ! j)))"
    by (simp add: matches_rule_def matches_value_def extract_context_value_def)
  from identify_client_first_match [where i = 0 and rules = ?rules and fnm = fnmatch_plain and ctx = ?c1] h1
  have r1: "identify_client fnmatch_plain ?rules ?c1
          = (fst (?rules ! 0), ?c1\<lparr>client_id := Some (fst (?rules ! 0))\<rparr>)" by blast
  from identify_client_first_match [where rules = ?rules and fnm = fnmatch_plain and ctx = ?c2] h2
  have r2: "identify_client fnmatch_plain ?rules ?c2 = (''default'', ?c2\<lparr>client_id := Some ''default''\<rparr>)"
    by blast
  from identify_client_first_match [where fnm = fnmatch_plain and actual = "[]" and pat = "[]"]
  have r3: "matches_value fnmatch_plain [] ''*'' = fnmatch_plain [] ''*''" by simp
  from identify_client_first_match [where fnm = fnmatch_plain and actual = "[]" and expected = "''curl''"]
  have r4: "matches_value fnmatch_plain [] ''curl'' = ([] = ''curl'')" by simp
  from r1 r2 r3 r4 show ?thesis by simp
qed

section \<open>Properties of the namespacing\<close>

lemma split1_append:
  "sep \<notin> set s \<Longrightarrow> split1 sep (s @ sep # rest) = (s, rest)"
  by (induction s) (auto simp: split1_def)

lemma parse_tool_roundtrip:
  assumes "CHR ''.'' \<notin> set s"
  shows "router_parse_namespaced_tool (namespace_tool_name s n) = Inr (s, n)"
  using split1_append [OF assms, of n]
  by (simp add: router_parse_namespaced_tool_def namespace_tool_name_def)

text \<open>
  Claim C4, as amended. The router splits a namespaced tool name at its first \<open>.\<close>. So
  for every server id without \<open>.\<close> and every tool name, parsing \<open>server_id.name\<close>
  gives back the pair, and on such server ids the namespacing map is injective. The
  statement is about tool names only.
\<close>

theorem namespace_roundtrip:
  "(CHR ''.'' \<notin> set s \<longrightarrow> router_parse_namespaced_tool (namespace_tool_name s n) = Inr (s, n))
   \<and> (CHR ''.'' \<notin> set s \<and> CHR ''.'' \<notin> set s'
        \<and> namespace_tool_name s n = namespace_tool_name s' n' \<longrightarrow> s = s' \<and> n = n')"
proof (intro conjI impI)
  assume "CHR ''.'' \<notin> set s"
  then show "router_parse_namespaced_tool (namespace_tool_name s n) = Inr (s, n)"
    by (rule parse_tool_roundtrip)
next
  assume a: "CHR ''.'' \<notin> set s \<and> CHR ''.'' \<notin> set s'
        \<and> namespace_tool_name s n = namespace_tool_name s' n'"
  have p1: "router_parse_namespaced_tool (namespace_tool_name s n) = Inr (s, n)"
    using a by (intro parse_tool_roundtrip) blast
  have p2: "router_parse_namespaced_tool (namespace_tool_name s' n') = Inr (s', n')"
    using a by (intro parse_tool_roundtrip) blast
  from a have eq: "namespace_tool_name s n = namespace_tool_name s' n'" by blast
  have "(Inr (s, n) :: exn + string \<times> string) = Inr (s', n')"
    using p1 p2 unfolding eq by (rule trans [OF sym])
  then show "s = s'" and "n = n'" by simp_all
qed

text \<open>
  Claim C4 as stated fails for a server id that contains the separator: \<open>a.b\<close> with the
  tool \<open>c\<close> and \<open>a\<close> with the tool \<open>b.c\<close> share the name \<open>a.b.c\<close>, which parses to
  the second pair.
\<close>

theorem namespace_roundtrip_counterexample:
  "router_parse_namespaced_tool (namespace_tool_name ''a.b'' ''c'') = Inr (''a'', ''b.c'')
   \<and> router_parse_namespaced_tool (namespace_tool_name ''a.b'' ''c'') \<noteq> Inr (''a.b'', ''c'')
   \<and> namespace_tool_name ''a.b'' ''c'' = namespace_tool_name ''a'' ''b.c''"
  by (simp add: router_parse_namespaced_tool_def namespace_tool_name_def split1_def)

text \<open>A tool name may contain the separator itself.\<close>

theorem namespace_roundtrip_witness:
  "router_parse_namespaced_tool (namespace_tool_name ''fs'' ''read.file'') = Inr (''fs'', ''read.file'')
   \<and> namespace_tool_name ''fs'' ''read.file'' = ''fs.read.file''"
proof -
  have h1: "CHR ''.'' \<notin> set ''fs''" by simp
  from namespace_roundtrip [where s = "''fs''" and n = "''read.file''"] h1
  have "router_parse_namespaced_tool (namespace_tool_name ''fs'' ''read.file'') = Inr (''fs'', ''read.file'')"
    by blast
  then show ?thesis
    by (simp add: namespace_tool_name_def)
qed

section \<open>Properties of the aggregator\<close>

lemma get_server_tools_cases:
  "get_server_tools sid p =
     (case session p of
        None \<Rightarrow> Inl (Exception (''Error getting tools from '' @ sid @ '': MCP server '' @ server_id p @ '' not running''))
      | Some s \<Rightarrow>
          (case list_tools_reply s of
             Reply r \<Rightarrow> Inr r
           | Fails m \<Rightarrow> Inl (Exception (''Error getting tools from '' @ sid @ '': Error listing tools from server '' @ server_id p @ '': '' @ m))
           | NoReply Inner \<Rightarrow> Inl (Exception (''Error getting tools from '' @ sid @ '': Timeout listing tools from server '' @ server_id p))
           | NoReply Outer \<Rightarrow> Inl (Exception (''Timeout getting tools from '' @ sid))))"
  by (simp add: get_server_tools_def process_list_tools_def split: option.splits reply.splits deadline.splits)

lemma collect_tools_zip:
  "collect_tools (zip (map fst ss) (map (\<lambda>(sid, p). get_server_tools sid p) ss)) =
   concat (map (\<lambda>(sid, p).
      case session p of
        None \<Rightarrow> []
      | Some s \<Rightarrow> (case list_tools_reply s of
                     Reply (ListToolsResult ts) \<Rightarrow> map (namespaced_tool sid) ts
                   | Fails m \<Rightarrow> []
                   | NoReply dl \<Rightarrow> [])) ss)"
proof (induction ss)
  case Nil
  then show ?case by simp
next
  case (Cons x ss)
  obtain sid p where x: "x = (sid, p)" by (cases x)
  show ?case
    using Cons.IH
    by (simp add: x get_server_tools_cases
        split: option.splits reply.splits deadline.splits ListToolsResult.splits)
qed

lemma aggregate_tools_eq:
  "aggregate_tools m =
   concat (map (\<lambda>(sid, p).
      case session p of
        None \<Rightarrow> []
      | Some s \<Rightarrow> (case list_tools_reply s of
                     Reply (ListToolsResult ts) \<Rightarrow> map (namespaced_tool sid) ts
                   | Fails m \<Rightarrow> []
                   | NoReply dl \<Rightarrow> [])) (get_active_sessions m))"
  by (cases "get_active_sessions m = []") (simp_all add: aggregate_tools_def Let_def collect_tools_zip)

lemma active_partition:
  "length (filter (\<lambda>(sid, p). answers p) (get_active_sessions m))
   + length (filter (\<lambda>(sid, p). raises p) (get_active_sessions m))
   + length (filter (\<lambda>(sid, p). times_out p) (get_active_sessions m))
   = length (get_active_sessions m)"
proof -
  have "\<forall>x\<in>set ss. session (snd x) \<noteq> None \<Longrightarrow>
     length (filter (\<lambda>(sid, p). answers p) ss) + length (filter (\<lambda>(sid, p). raises p) ss)
     + length (filter (\<lambda>(sid, p). times_out p) ss) = length ss" for ss :: "MCPProcess dict"
    by (induction ss)
       (auto simp: answers_def raises_def times_out_def split: option.splits reply.splits)
  moreover have "\<forall>x\<in>set (get_active_sessions m). session (snd x) \<noteq> None"
    by (auto simp: get_active_sessions_def)
  ultimately show ?thesis by blast
qed

lemma concat_map_filter_nil:
  "(\<And>x. x \<in> set xs \<Longrightarrow> \<not> P x \<Longrightarrow> f x = []) \<Longrightarrow>
   concat (map f xs) = concat (map f (filter P xs))"
  by (induction xs) auto

lemma aggregate_tools_answering:
  "aggregate_tools m =
     concat (map (\<lambda>(sid, p). map (namespaced_tool sid) (listed_tools p))
       (filter (\<lambda>(sid, p). answers p) (get_active_sessions m)))"
proof -
  let ?f = "\<lambda>(sid, p). map (namespaced_tool sid) (listed_tools p)"
  have "aggregate_tools m = concat (map ?f (get_active_sessions m))"
    unfolding aggregate_tools_eq
    by (intro arg_cong [where f = concat] map_cong refl)
       (auto simp: listed_tools_def split: option.splits reply.splits ListToolsResult.splits)
  also have "\<dots> = concat (map ?f (filter (\<lambda>(sid, p). answers p) (get_active_sessions m)))"
    by (rule concat_map_filter_nil)
       (auto simp: listed_tools_def answers_def split: option.splits reply.splits)
  finally show ?thesis .
qed

text \<open>
  Claim C6. \<open>aggregate_tools\<close> returns, in the order of the running sessions, exactly
  the namespaced tools of the backends that answer the list call: a backend that raises
  and a backend that times out (under either deadline) contribute nothing. With \<open>N\<close>
  running sessions of which \<open>k\<close> raise and \<open>m\<close> time out, these are the \<open>N - k - m\<close>
  others. Every tool is renamed to \<open>server_id.tool_name\<close>, its description is prefixed
  with \<open>[server_id] \<close> and its schema is kept.
\<close>

theorem aggregate_tools_partial_failure:
  "aggregate_tools m =
     concat (map (\<lambda>(sid, p). map (namespaced_tool sid) (listed_tools p))
       (filter (\<lambda>(sid, p). answers p) (get_active_sessions m)))
   \<and> length (filter (\<lambda>(sid, p). answers p) (get_active_sessions m))
       = length (get_active_sessions m)
         - length (filter (\<lambda>(sid, p). raises p) (get_active_sessions m))
         - length (filter (\<lambda>(sid, p). times_out p) (get_active_sessions m))
   \<and> name (namespaced_tool sid t) = sid @ ''.'' @ name t
   \<and> description (namespaced_tool sid t)
       = Some (''['' @ sid @ ''] '' @ (case description t of None \<Rightarrow> ''None'' | Some d \<Rightarrow> d))
   \<and> inputSchema (namespaced_tool sid t) = inputSchema t"
  using active_partition [of m]
  by (simp add: aggregate_tools_answering namespaced_tool_def)

text \<open>
  Four running backends: \<open>b\<close> raises and \<open>c\<close> times out; the tools of \<open>a\<close> and \<open>d\<close>
  are listed.
\<close>

theorem aggregate_tools_partial_failure_witness:
  "aggregate_tools
     \<lparr>config = \<lparr>servers = [], clients = []\<rparr>,
      processes =
        [(''a'', (MCPProcess_init ''a'' \<lparr>source = ''npm:a'', transport = Stdio, auto_install = True, enabled = True\<rparr> ''/srv/a'')
                  \<lparr>session := Some \<lparr>list_tools_reply =
                       Reply (ListToolsResult [\<lparr>name = ''read'', description = Some ''Read a file'', inputSchema = JNull\<rparr>]),
                     call_tool_reply = (\<lambda>n a. Fails ''unused'')\<rparr>, status := RUNNING\<rparr>),
         (''b'', (MCPProcess_init ''b'' \<lparr>source = ''npm:b'', transport = Stdio, auto_install = True, enabled = True\<rparr> ''/srv/b'')
                  \<lparr>session := Some \<lparr>list_tools_reply = Fails ''boom'',
                     call_tool_reply = (\<lambda>n a. Fails ''unused'')\<rparr>, status := RUNNING\<rparr>),
         (''c'', (MCPProcess_init ''c'' \<lparr>source = ''npm:c'', transport = Stdio, auto_install = True, enabled = True\<rparr> ''/srv/c'')
                  \<lparr>session := Some \<lparr>list_tools_reply = NoReply Outer,
                     call_tool_reply = (\<lambda>n a. Fails ''unused'')\<rparr>, status := RUNNING\<rparr>),
         (''d'', (MCPProcess_init ''d'' \<lparr>source = ''npm:d'', transport = Stdio, auto_install = True, enabled = True\<rparr> ''/srv/d'')
                  \<lparr>session := Some \<lparr>list_tools_reply =
                       Reply (ListToolsResult [\<lparr>name = ''ls'', description = None, inputSchema = JNull\<rparr>]),
                     call_tool_reply = (\<lambda>n a. Fails ''unused'')\<rparr>, status := RUNNING\<rparr>)]\<rparr>
   = [\<lparr>name = ''a.read'', description = Some ''[a] Read a file'', inputSchema = JNull\<rparr>,
      \<lparr>name = ''d.ls'', description = Some ''[d] None'', inputSchema = JNull\<rparr>]"
  by (simp add: aggregate_tools_partial_failure get_active_sessions_def MCPProcess_init_def
      answers_def listed_tools_def namespaced_tool_def)

section \<open>Properties of the supervisor\<close>

lemma process_start_ok:
  "process_start env p = (Inr u, p') \<Longrightarrow> status p = STOPPED \<Longrightarrow>
   status p' = RUNNING \<and> session p' \<noteq> None"
  by (auto simp: process_start_def Let_def split: if_splits sum.splits Transport.splits)

lemma start_server_raises_unchanged:
  "fst (start_server env sid m) = Inl e \<Longrightarrow> snd (start_server env sid m) = m"
  by (auto simp: start_server_def split: if_splits option.splits sum.splits prod.splits)

lemma start_server_changes:
  assumes "processes (snd (start_server env sid m)) \<noteq> processes m"
  shows "\<exists>cfg path p. map_of (servers (config m)) sid = Some cfg
      \<and> ensure_server_installed env sid cfg = Inr path
      \<and> process_start env (MCPProcess_init sid cfg path) = (Inr (), p)
      \<and> status p = RUNNING \<and> session p \<noteq> None
      \<and> start_server env sid m = (Inr (), m\<lparr>processes := AList.update sid p (processes m)\<rparr>)"
proof -
  from assms obtain cfg where cfg: "map_of (servers (config m)) sid = Some cfg"
    "sid \<notin> fst ` set (processes m)" "enabled cfg"
    by (auto simp: start_server_def split: if_splits option.splits)
  from assms cfg obtain path where path: "ensure_server_installed env sid cfg = Inr path"
    by (auto simp: start_server_def split: sum.splits)
  obtain r p where rp: "process_start env (MCPProcess_init sid cfg path) = (r, p)"
    by (cases "process_start env (MCPProcess_init sid cfg path)")
  from assms cfg path rp have r: "r = Inr ()"
    by (cases r) (auto simp: start_server_def)
  have "status (MCPProcess_init sid cfg path) = STOPPED" by (simp add: MCPProcess_init_def)
  with rp r have "status p = RUNNING \<and> session p \<noteq> None"
    using process_start_ok by blast
  moreover have "start_server env sid m = (Inr (), m\<lparr>processes := AList.update sid p (processes m)\<rparr>)"
    using cfg path rp r by (simp add: start_server_def)
  ultimately show ?thesis using cfg path rp r by blast
qed

text \<open>
  Claim C9. When \<open>start_server\<close> raises, the supervisor is left as it was: no entry is
  added to the session map. An installation failure and a process start failure both
  propagate to the caller as the exception raised. The session map changes only by the
  insertion of a process whose start succeeded (it is running and holds a session).
\<close>

theorem start_server_failure_leaves_map:
  "(fst (start_server env sid m) = Inl e \<longrightarrow> snd (start_server env sid m) = m)
   \<and> (sid \<notin> fst ` set (processes m) \<and> map_of (servers (config m)) sid = Some cfg \<and> enabled cfg
        \<and> ensure_server_installed env sid cfg = Inl e
      \<longrightarrow> start_server env sid m = (Inl e, m))
   \<and> (sid \<notin> fst ` set (processes m) \<and> map_of (servers (config m)) sid = Some cfg \<and> enabled cfg
        \<and> ensure_server_installed env sid cfg = Inr path
        \<and> fst (process_start env (MCPProcess_init sid cfg path)) = Inl e
      \<longrightarrow> start_server env sid m = (Inl e, m))
   \<and> (processes (snd (start_server env sid m)) \<noteq> processes m
      \<longrightarrow> (\<exists>cfg path p. map_of (servers (config m)) sid = Some cfg
            \<and> ensure_server_installed env sid cfg = Inr path
            \<and> process_start env (MCPProcess_init sid cfg path) = (Inr (), p)
            \<and> status p = RUNNING \<and> session p \<noteq> None
            \<and> start_server env sid m
                = (Inr (), m\<lparr>processes := AList.update sid p (processes m)\<rparr>)))"
proof (intro conjI impI)
  assume "fst (start_server env sid m) = Inl e"
  then show "snd (start_server env sid m) = m" by (rule start_server_raises_unchanged)
next
  assume "sid \<notin> fst ` set (processes m) \<and> map_of (servers (config m)) sid = Some cfg \<and> enabled cfg
        \<and> ensure_server_installed env sid cfg = Inl e"
  then show "start_server env sid m = (Inl e, m)"
    by (simp add: start_server_def)
next
  assume "sid \<notin> fst ` set (processes m) \<and> map_of (servers (config m)) sid = Some cfg \<and> enabled cfg
        \<and> ensure_server_installed env sid cfg = Inr path
        \<and> fst (process_start env (MCPProcess_init sid cfg path)) = Inl e"
  then show "start_server env sid m = (Inl e, m)"
    by (cases "process_start env (MCPProcess_init sid cfg path)") (simp add: start_server_def)
next
  assume "processes (snd (start_server env sid m)) \<noteq> processes m"
  then show "\<exists>cfg path p. map_of (servers (config m)) sid = Some cfg
            \<and> ensure_server_installed env sid cfg = Inr path
            \<and> process_start env (MCPProcess_init sid cfg path) = (Inr (), p)
            \<and> status p = RUNNING \<and> session p \<noteq> None
            \<and> start_server env sid m
                = (Inr (), m\<lparr>processes := AList.update sid p (processes m)\<rparr>)"
    by (rule start_server_changes)
qed

text \<open>
  Three configured servers: the installation of \<open>bad\<close> fails, the handshake of \<open>mute\<close>
  fails, and \<open>ok\<close> starts.
\<close>

theorem start_server_failure_leaves_map_witness:
  "start_server
     \<lparr>is_installed = (\<lambda>sid cfg. Inr False),
      get_install_path = (\<lambda>sid cfg. Inr ''/srv''),
      install = (\<lambda>sid cfg. if sid = ''bad'' then Inl (RuntimeError ''npm install failed'') else Inr ''/srv''),
      start_stdio = (\<lambda>sid cfg path.
         if sid = ''ok''
         then Inr \<lparr>list_tools_reply = Reply (ListToolsResult []), call_tool_reply = (\<lambda>n a. Fails ''no such tool'')\<rparr>
         else Inl (RuntimeError ''handshake failed''))\<rparr>
     ''bad''
     \<lparr>config = \<lparr>servers = [(''bad'', \<lparr>source = ''npm:bad'', transport = Stdio, auto_install = True, enabled = True\<rparr>),
                           (''mute'', \<lparr>source = ''npm:mute'', transport = Stdio, auto_install = True, enabled = True\<rparr>),
                           (''ok'', \<lparr>source = ''npm:ok'', transport = Stdio, auto_install = True, enabled = True\<rparr>)],
                clients = []\<rparr>,
      processes = []\<rparr>
   = (Inl (RuntimeError ''npm install failed''),
      \<lparr>config = \<lparr>servers = [(''bad'', \<lparr>source = ''npm:bad'', transport = Stdio, auto_install = True, enabled = True\<rparr>),
                           (''mute'', \<lparr>source = ''npm:mute'', transport = Stdio, auto_install = True, enabled = True\<rparr>),
                           (''ok'', \<lparr>source = ''npm:ok'', transport = Stdio, auto_install = True, enabled = True\<rparr>)],
                clients = []\<rparr>,
      processes = []\<rparr>)
   \<and> start_server
     \<lparr>is_installed = (\<lambda>sid cfg. Inr False),
      get_install_path = (\<lambda>sid cfg. Inr ''/srv''),
      install = (\<lambda>sid cfg. if sid = ''bad'' then Inl (RuntimeError ''npm install failed'') else Inr ''/srv''),
      start_stdio = (\<lambda>sid cfg path.
         if sid = ''ok''
         then Inr \<lparr>list_tools_reply = Reply (ListToolsResult []), call_tool_reply = (\<lambda>n a. Fails ''no such tool'')\<rparr>
         else Inl (RuntimeError ''handshake failed''))\<rparr>
     ''mute''
     \<lparr>config = \<lparr>servers = [(''bad'', \<lparr>source = ''npm:bad'', transport = Stdio, auto_install = True, enabled = True\<rparr>),
                           (''mute'', \<lparr>source = ''npm:mute'', transport = Stdio, auto_install = True, enabled = True\<rparr>),
                           (''ok'', \<lparr>source = ''npm:ok'', transport = Stdio, auto_install = True, enabled = True\<rparr>)],
                clients = []\<rparr>,
      processes = []\<rparr>
   = (Inl (RuntimeError ''handshake failed''),
      \<lparr>config = \<lparr>servers = [(''bad'', \<lparr>source = ''npm:bad'', transport = Stdio, auto_install = True, enabled = True\<rparr>),
                           (''mute'', \<lparr>source = ''npm:mute'', transport = Stdio, auto_install = True, enabled = True\<rparr>),
                           (''ok'', \<lparr>source = ''npm:ok'', transport = Stdio, auto_install = True, enabled = True\<rparr>)],
                clients = []\<rparr>,
      processes = []\<rparr>)
   \<and> start_server
     \<lparr>is_installed = (\<lambda>sid cfg. Inr False),
      get_install_path = (\<lambda>sid cfg. Inr ''/srv''),
      install = (\<lambda>sid cfg. if sid = ''bad'' then Inl (RuntimeError ''npm install failed'') else Inr ''/srv''),
      start_stdio = (\<lambda>sid cfg path.
         if sid = ''ok''
         then Inr \<lparr>list_tools_reply = Reply (ListToolsResult []), call_tool_reply = (\<lambda>n a. Fails ''no such tool'')\<rparr>
         else Inl (RuntimeError ''handshake failed''))\<rparr>
     ''ok''
     \<lparr>config = \<lparr>servers = [(''bad'', \<lparr>source = ''npm:bad'', transport = Stdio, auto_install = True, enabled = True\<rparr>),
                           (''mute'', \<lparr>source = ''npm:mute'', transport = Stdio, auto_install = True, enabled = True\<rparr>),
                           (''ok'', \<lparr>source = ''npm:ok'', transport = Stdio, auto_install = True, enabled = True\<rparr>)],
                clients = []\<rparr>,
      processes = []\<rparr>
   = (Inr (),
      \<lparr>config = \<lparr>servers = [(''bad'', \<lparr>source = ''npm:bad'', transport = Stdio, auto_install = True, enabled = True\<rparr>),
                           (''mute'', \<lparr>source = ''npm:mute'', transport = Stdio, auto_install = True, enabled = True\<rparr>),
                           (''ok'', \<lparr>source = ''npm:ok'', transport = Stdio, auto_install = True, enabled = True\<rparr>)],
                clients = []\<rparr>,
      processes =
        [(''ok'',
          \<lparr>server_id = ''ok'',
           server_config = \<lparr>source = ''npm:ok'', transport = Stdio, auto_install = True, enabled = True\<rparr>,
           install_path = ''/srv'',
           session = Some \<lparr>list_tools_reply = Reply (ListToolsResult []),
                             call_tool_reply = (\<lambda>n a. Fails ''no such tool'')\<rparr>,
           status = RUNNING, request_count = 0, error_count = 0\<rparr>)]\<rparr>)"
proof -
  let ?env = "\<lparr>is_installed = (\<lambda>sid cfg. Inr False),
      get_install_path = (\<lambda>sid cfg. Inr ''/srv''),
      install = (\<lambda>sid cfg. if sid = ''bad'' then Inl (RuntimeError ''npm install failed'') else Inr ''/srv''),
      start_stdio = (\<lambda>sid cfg path.
         if sid = ''ok''
         then Inr \<lparr>list_tools_reply = Reply (ListToolsResult []), call_tool_reply = (\<lambda>n a. Fails ''no such tool'')\<rparr>
         else Inl (RuntimeError ''handshake failed''))\<rparr>"
  let ?bad = "\<lparr>source = ''npm:bad'', transport = Stdio, auto_install = True, enabled = True\<rparr>"
  let ?mute = "\<lparr>source = ''npm:mute'', transport = Stdio, auto_install = True, enabled = True\<rparr>"
  let ?ok = "\<lparr>source = ''npm:ok'', transport = Stdio, auto_install = True, enabled = True\<rparr>"
  let ?m = "\<lparr>config = \<lparr>servers = [(''bad'', ?bad), (''mute'', ?mute), (''ok'', ?ok)], clients = []\<rparr>,
             processes = []\<rparr>"
  have h1: "''bad'' \<notin> fst ` set (processes ?m) \<and> map_of (servers (config ?m)) ''bad'' = Some ?bad
        \<and> enabled ?bad
        \<and> ensure_server_installed ?env ''bad'' ?bad = Inl (RuntimeError ''npm install failed'')"
    by (simp add: ensure_server_installed_def)
  have h2: "''mute'' \<notin> fst ` set (processes ?m) \<and> map_of (servers (config ?m)) ''mute'' = Some ?mute
        \<and> enabled ?mute
        \<and> ensure_server_installed ?env ''mute'' ?mute = Inr ''/srv''
        \<and> fst (process_start ?env (MCPProcess_init ''mute'' ?mute ''/srv''))
            = Inl (RuntimeError ''handshake failed'')"
    by (simp add: ensure_server_installed_def process_start_def MCPProcess_init_def)
  from start_server_failure_leaves_map [where env = ?env and sid = "''bad''" and m = ?m
      and cfg = ?bad and e = "RuntimeError ''npm install failed''"] h1
  have r1: "start_server ?env ''bad'' ?m = (Inl (RuntimeError ''npm install failed''), ?m)" by blast
  from start_server_failure_leaves_map [where env = ?env and sid = "''mute''" and m = ?m
      and cfg = ?mute and e = "RuntimeError ''handshake failed''" and path = "''/srv''"] h2
  have r2: "start_server ?env ''mute'' ?m = (Inl (RuntimeError ''handshake failed''), ?m)" by blast
  have h3: "processes (snd (start_server ?env ''ok'' ?m)) \<noteq> processes ?m"
    by (simp add: start_server_def ensure_server_installed_def process_start_def MCPProcess_init_def)
  from start_server_failure_leaves_map [where env = ?env and sid = "''ok''" and m = ?m] h3
  obtain p where r3: "status p = RUNNING" "session p \<noteq> None"
     "start_server ?env ''ok'' ?m = (Inr (), ?m\<lparr>processes := AList.update ''ok'' p (processes ?m)\<rparr>)"
    by blast
  have r4: "start_server ?env ''ok'' ?m = (Inr (), ?m\<lparr>processes :=
        [(''ok'', \<lparr>server_id = ''ok'', server_config = ?ok, install_path = ''/srv'',
           session = Some \<lparr>list_tools_reply = Reply (ListToolsResult []),
                             call_tool_reply = (\<lambda>n a. Fails ''no such tool'')\<rparr>,
           status = RUNNING, request_count = 0, error_count = 0\<rparr>)]\<rparr>)"
    using r3
    by (simp add: start_server_def ensure_server_installed_def process_start_def MCPProcess_init_def)
  from r1 r2 r4 show ?thesis by simp
qed

section \<open>Properties of the middleware, the router and the front-end handler\<close>

lemma deny_rule_denies:
  assumes "map_of rules cid = Some rule
           \<or> (map_of rules cid = None \<and> map_of rules ''default'' = Some rule)"
    and "d \<in> set (deny rule)"
    and "matches_access_rule fnm d sid tool_name ''tools''"
  shows "check_tool_access fnm rules cid sid tool_name = False"
proof -
  have r: "resolve_rule rules cid = Some rule"
    using assms(1) by (auto simp: resolve_rule_def)
  have "list_ex (\<lambda>deny_rule. matches_access_rule fnm deny_rule sid tool_name ''tools'') (deny rule)"
    using assms(2,3) by (auto simp: list_ex_iff)
  then show ?thesis
    by (simp add: check_tool_access_def r)
qed

lemma created_context_client_id:
  "\<exists>c. client_id (create_connection_context ctx) = Some c \<and> c \<noteq> []"
  by (auto simp: create_connection_context_def ConnectionContext_init_def Let_def
      split: RequestContext.splits option.splits ServerSession.splits)

lemma process_request_identified:
  assumes "client_id context = Some c" "c \<noteq> []"
  shows "process_request fnm rules (CallToolRequest tool_name arguments) context
         = (check_tool_call fnm rules tool_name c, context)"
  using assms by (simp add: process_request_def or_default_def)

lemma route_request_unnamespaced:
  assumes "CHR ''.'' \<notin> set tool_name"
  shows "route_request fnm keyfn t_get t_set (CallToolRequest tool_name arguments) context r
         = (Error (ErrorData INTERNAL_ERROR
              (''Internal routing error: Tool name must be namespaced: '' @ tool_name)), r)"
  using assms
  by (simp add: route_request_def route_tool_call_def router_parse_namespaced_tool_def)

lemma handler_denied:
  assumes "client_id (create_connection_context ctx) = Some c" "c \<noteq> []"
    and "middleware_parse_namespaced_tool tool_name = (sid, actual)"
    and "\<not> check_tool_access fnm (client_rules r) c sid actual"
  shows "handler_call_tool fnm keyfn t_get t_set ctx tool_name arguments r
         = ([TextContent (''Access denied: Access denied to tool: '' @ tool_name)], r)"
  using assms
  by (simp add: handler_call_tool_def Let_def process_request_identified check_tool_call_def)

lemma handler_allowed:
  assumes "client_id (create_connection_context ctx) = Some c" "c \<noteq> []"
    and "middleware_parse_namespaced_tool tool_name = (sid, actual)"
    and "check_tool_access fnm (client_rules r) c sid actual"
  shows "handler_call_tool fnm keyfn t_get t_set ctx tool_name arguments r
         = (case route_request fnm keyfn t_get t_set (CallToolRequest tool_name arguments)
                  (create_connection_context ctx) r of
              (ToolResult (CallToolResult content is_error), r') \<Rightarrow> (content, r')
            | (Error (ErrorData c msg), r') \<Rightarrow> ([TextContent (''Error: '' @ msg)], r')
            | (ToolsResult x, r') \<Rightarrow> ([TextContent ''Unknown error occurred''], r'))"
  using assms
  by (simp add: handler_call_tool_def Let_def process_request_identified check_tool_call_def)

text \<open>
  Claim C7, as amended. The handler takes the client id from the session's client info
  (its name, or \<open>default\<close>). For a client whose resolved rule contains the deny rule
  for server \<open>fs\<close> with the tool list \<open>["*"]\<close>, the handler called with the name
  \<open>fs.read_file\<close> returns one text block, whose text is the handler's prefix
  \<open>Access denied: \<close> followed by the middleware's message
  \<open>Access denied to tool: fs.read_file\<close>; neither the cache nor a backend is touched.
\<close>

theorem denied_tool_call_text:
  assumes "client_id (create_connection_context ctx) = Some cid"
    and "map_of (client_rules r) cid = Some rule
         \<or> (map_of (client_rules r) cid = None \<and> map_of (client_rules r) ''default'' = Some rule)"
    and "d \<in> set (deny rule)"
    and "server d = ''fs''"
    and "tools d = Some [''*'']"
  shows "handler_call_tool fnm keyfn t_get t_set ctx ''fs.read_file'' arguments r
         = ([TextContent ''Access denied: Access denied to tool: fs.read_file''], r)"
proof -
  have ne: "cid \<noteq> []"
    using created_context_client_id [of ctx] assms(1) by auto
  have p: "middleware_parse_namespaced_tool ''fs.read_file'' = (''fs'', ''read_file'')"
    by (simp add: middleware_parse_namespaced_tool_def split1_def)
  have "matches_access_rule fnm d ''fs'' ''read_file'' ''tools''"
    using assms(4,5) by (simp add: matches_access_rule_def)
  then have "\<not> check_tool_access fnm (client_rules r) cid ''fs'' ''read_file''"
    using deny_rule_denies [OF assms(2) assms(3)] by simp
  from handler_denied [OF assms(1) ne p this] show ?thesis by simp
qed

text \<open>
  Claim C10. For a tool name without \<open>.\<close> the middleware does not reject the name: it
  parses it as the server id \<open>default\<close> with the name unchanged and decides by
  \<open>check_tool_access\<close> against the server id \<open>default\<close>; the router's parser raises
  for the same name, and the router answers with an error and leaves the supervisor and
  the cache as they were. So when the access check passes, the handler returns the
  routing error and no backend is called.
\<close>

theorem unnamespaced_tool_passes_middleware:
  "(CHR ''.'' \<notin> set tool_name \<longrightarrow>
      middleware_parse_namespaced_tool tool_name = (''default'', tool_name)
      \<and> check_tool_call fnm rules tool_name cid
          = (if check_tool_access fnm rules cid ''default'' tool_name then (True, None)
             else (False, Some (ErrorData INVALID_REQUEST (''Access denied to tool: '' @ tool_name))))
      \<and> router_parse_namespaced_tool tool_name
          = Inl (ValueError (''Tool name must be namespaced: '' @ tool_name))
      \<and> route_request fnm keyfn t_get t_set (CallToolRequest tool_name arguments) context r
          = (Error (ErrorData INTERNAL_ERROR
               (''Internal routing error: Tool name must be namespaced: '' @ tool_name)), r))
   \<and> (CHR ''.'' \<notin> set tool_name
        \<and> client_id (create_connection_context ctx) = Some cid
        \<and> check_tool_access fnm (client_rules r) cid ''default'' tool_name \<longrightarrow>
      handler_call_tool fnm keyfn t_get t_set ctx tool_name arguments r
        = ([TextContent (''Error: Internal routing error: Tool name must be namespaced: ''
              @ tool_name)], r))"
proof (intro conjI impI)
  assume a: "CHR ''.'' \<notin> set tool_name"
  show "middleware_parse_namespaced_tool tool_name = (''default'', tool_name)"
    using a by (simp add: middleware_parse_namespaced_tool_def)
  show "check_tool_call fnm rules tool_name cid
          = (if check_tool_access fnm rules cid ''default'' tool_name then (True, None)
             else (False, Some (ErrorData INVALID_REQUEST (''Access denied to tool: '' @ tool_name))))"
    using a by (simp add: check_tool_call_def middleware_parse_namespaced_tool_def)
  show "router_parse_namespaced_tool tool_name
          = Inl (ValueError (''Tool name must be namespaced: '' @ tool_name))"
    using a by (simp add: router_parse_namespaced_tool_def)
  show "route_request fnm keyfn t_get t_set (CallToolRequest tool_name arguments) context r
          = (Error (ErrorData INTERNAL_ERROR
               (''Internal routing error: Tool name must be namespaced: '' @ tool_name)), r)"
    using a by (rule route_request_unnamespaced)
next
  assume a: "CHR ''.'' \<notin> set tool_name
        \<and> client_id (create_connection_context ctx) = Some cid
        \<and> check_tool_access fnm (client_rules r) cid ''default'' tool_name"
  then have c: "client_id (create_connection_context ctx) = Some cid" by blast
  have ne: "cid \<noteq> []"
    using created_context_client_id [of ctx] c by auto
  have p: "middleware_parse_namespaced_tool tool_name = (''default'', tool_name)"
    using a by (simp add: middleware_parse_namespaced_tool_def)
  have ok: "check_tool_access fnm (client_rules r) cid ''default'' tool_name" using a by blast
  have nd: "CHR ''.'' \<notin> set tool_name" using a by blast
  show "handler_call_tool fnm keyfn t_get t_set ctx tool_name arguments r
        = ([TextContent (''Error: Internal routing error: Tool name must be namespaced: ''
              @ tool_name)], r)"
    by (simp add: handler_allowed [OF c ne p ok] route_request_unnamespaced [OF nd])
qed

text \<open>
  Claim C7 as stated fails: for the client \<open>guest\<close> with that deny rule the text is not
  \<open>Access denied: fs.read_file\<close>.
\<close>

theorem denied_tool_call_text_counterexample:
  "handler_call_tool fnmatch_plain (\<lambda>sid method params. sid @ '':'' @ method) 0 0
     (RequestContext (Some (ServerSession (Some (Some \<lparr>impl_name = ''guest'', impl_version = ''1''\<rparr>)))))
     ''fs.read_file'' (JObj [(''path'', JStr ''/a'')])
     \<lparr>server_manager = \<lparr>config = \<lparr>servers = [], clients = []\<rparr>, processes = []\<rparr>,
      client_rules =
        [(''guest'', \<lparr>identify_by = [], allow = [],
                      deny = [\<lparr>server = ''fs'', tools = Some [''*''], resources = None\<rparr>],
                      deny_all_except_allowed = False\<rparr>)],
      response_cache = ResponseCache_init 1000 300\<rparr>
   = ([TextContent ''Access denied: Access denied to tool: fs.read_file''],
      \<lparr>server_manager = \<lparr>config = \<lparr>servers = [], clients = []\<rparr>, processes = []\<rparr>,
       client_rules =
         [(''guest'', \<lparr>identify_by = [], allow = [],
                       deny = [\<lparr>server = ''fs'', tools = Some [''*''], resources = None\<rparr>],
                       deny_all_except_allowed = False\<rparr>)],
       response_cache = ResponseCache_init 1000 300\<rparr>)
   \<and> [TextContent ''Access denied: Access denied to tool: fs.read_file'']
       \<noteq> [TextContent ''Access denied: fs.read_file'']"
  by (simp add: handler_call_tool_def create_connection_context_def ConnectionContext_init_def
      process_request_def or_default_def check_tool_call_def middleware_parse_namespaced_tool_def
      split1_def check_tool_access_def resolve_rule_def matches_access_rule_def)

text \<open>
  The client \<open>guest\<close> has no rule of its own and falls back to \<open>default\<close>, whose deny
  rule beats its allow rule.
\<close>

theorem denied_tool_call_text_witness:
  "handler_call_tool fnmatch_plain (\<lambda>sid method params. sid @ '':'' @ method) 0 0
     (RequestContext (Some (ServerSession (Some (Some \<lparr>impl_name = ''guest'', impl_version = ''1''\<rparr>)))))
     ''fs.read_file'' (JObj [(''path'', JStr ''/a'')])
     \<lparr>server_manager = \<lparr>config = \<lparr>servers = [], clients = []\<rparr>, processes = []\<rparr>,
      client_rules =
        [(''default'', \<lparr>identify_by = [], allow = [\<lparr>server = ''fs'', tools = None, resources = None\<rparr>],
                      deny = [\<lparr>server = ''fs'', tools = Some [''*''], resources = None\<rparr>],
                      deny_all_except_allowed = False\<rparr>)],
      response_cache = ResponseCache_init 1000 300\<rparr>
   = ([TextContent ''Access denied: Access denied to tool: fs.read_file''],
      \<lparr>server_manager = \<lparr>config = \<lparr>servers = [], clients = []\<rparr>, processes = []\<rparr>,
       client_rules =
         [(''default'', \<lparr>identify_by = [], allow = [\<lparr>server = ''fs'', tools = None, resources = None\<rparr>],
                       deny = [\<lparr>server = ''fs'', tools = Some [''*''], resources = None\<rparr>],
                       deny_all_except_allowed = False\<rparr>)],
       response_cache = ResponseCache_init 1000 300\<rparr>)"
proof -
  let ?ctx = "RequestContext (Some (ServerSession (Some (Some \<lparr>impl_name = ''guest'', impl_version = ''1''\<rparr>))))"
  let ?d = "\<lparr>server = ''fs'', tools = Some [''*''], resources = None\<rparr>"
  let ?rule = "\<lparr>identify_by = [], allow = [\<lparr>server = ''fs'', tools = None, resources = None\<rparr>],
                      deny = [?d], deny_all_except_allowed = False\<rparr>"
  let ?r = "\<lparr>server_manager = \<lparr>config = \<lparr>servers = [], clients = []\<rparr>, processes = []\<rparr>,
      client_rules = [(''default'', ?rule)],
      response_cache = ResponseCache_init 1000 300 :: ServerResult ResponseCache\<rparr>"
  have h1: "client_id (create_connection_context ?ctx) = Some ''guest''"
    by (simp add: create_connection_context_def ConnectionContext_init_def)
  have h2: "map_of (client_rules ?r) ''guest'' = Some ?rule
         \<or> (map_of (client_rules ?r) ''guest'' = None \<and> map_of (client_rules ?r) ''default'' = Some ?rule)"
    by simp
  have h3: "?d \<in> set (deny ?rule)" by simp
  have h4: "server ?d = ''fs''" by simp
  have h5: "tools ?d = Some [''*'']" by simp
  show ?thesis
    by (rule denied_tool_call_text [OF h1 h2 h3 h4 h5])
qed

text \<open>
  With a permissive \<open>default\<close> rule the call \<open>read_file\<close> passes the middleware and
  ends in the routing error; the request counter of the running backend stays at zero.
\<close>

theorem unnamespaced_tool_passes_middleware_witness:
  "check_tool_call fnmatch_plain
     [(''default'', \<lparr>identify_by = [], allow = [], deny = [], deny_all_except_allowed = False\<rparr>)]
     ''read_file'' ''default'' = (True, None)
   \<and> middleware_parse_namespaced_tool ''read_file'' = (''default'', ''read_file'')
   \<and> router_parse_namespaced_tool ''read_file''
       = Inl (ValueError ''Tool name must be namespaced: read_file'')
   \<and> handler_call_tool fnmatch_plain (\<lambda>sid method params. sid @ '':'' @ method) 0 0
       (RequestContext None) ''read_file'' (JObj [(''path'', JStr ''/a'')])
       \<lparr>server_manager =
          \<lparr>config = \<lparr>servers = [], clients = []\<rparr>,
           processes =
             [(''fs'',
               \<lparr>server_id = ''fs'',
                server_config = \<lparr>source = ''npm:fs'', transport = Stdio, auto_install = True, enabled = True\<rparr>,
                install_path = ''/srv/fs'',
                session = Some \<lparr>list_tools_reply = Reply (ListToolsResult []),
                                  call_tool_reply = (\<lambda>n a. Reply (CallToolResult [TextContent ''data''] False))\<rparr>,
                status = RUNNING, request_count = 0, error_count = 0\<rparr>)]\<rparr>,
        client_rules =
          [(''default'', \<lparr>identify_by = [], allow = [], deny = [], deny_all_except_allowed = False\<rparr>)],
        response_cache = ResponseCache_init 1000 300\<rparr>
     = ([TextContent ''Error: Internal routing error: Tool name must be namespaced: read_file''],
        \<lparr>server_manager =
          \<lparr>config = \<lparr>servers = [], clients = []\<rparr>,
           processes =
             [(''fs'',
               \<lparr>server_id = ''fs'',
                server_config = \<lparr>source = ''npm:fs'', transport = Stdio, auto_install = True, enabled = True\<rparr>,
                install_path = ''/srv/fs'',
                session = Some \<lparr>list_tools_reply = Reply (ListToolsResult []),
                                  call_tool_reply = (\<lambda>n a. Reply (CallToolResult [TextContent ''data''] False))\<rparr>,
                status = RUNNING, request_count = 0, error_count = 0\<rparr>)]\<rparr>,
        client_rules =
          [(''default'', \<lparr>identify_by = [], allow = [], deny = [], deny_all_except_allowed = False\<rparr>)],
        response_cache = ResponseCache_init 1000 300\<rparr>)"
proof -
  let ?rules = "[(''default'', \<lparr>identify_by = [], allow = [], deny = [], deny_all_except_allowed = False\<rparr>)]"
  let ?r = "\<lparr>server_manager =
          \<lparr>config = \<lparr>servers = [], clients = []\<rparr>,
           processes =
             [(''fs'',
               \<lparr>server_id = ''fs'',
                server_config = \<lparr>source = ''npm:fs'', transport = Stdio, auto_install = True, enabled = True\<rparr>,
                install_path = ''/srv/fs'',
                session = Some \<lparr>list_tools_reply = Reply (ListToolsResult []),
                                  call_tool_reply = (\<lambda>n a. Reply (CallToolResult [TextContent ''data''] False))\<rparr>,
                status = RUNNING, request_count = 0, error_count = 0\<rparr>)]\<rparr>,
        client_rules = ?rules,
        response_cache = ResponseCache_init 1000 300 :: ServerResult ResponseCache\<rparr>"
  have ok: "check_tool_access fnmatch_plain ?rules ''default'' ''default'' ''read_file''"
    by (simp add: check_tool_access_def resolve_rule_def)
  have h1: "CHR ''.'' \<notin> set ''read_file''" by simp
  have h2: "CHR ''.'' \<notin> set ''read_file''
        \<and> client_id (create_connection_context (RequestContext None)) = Some ''default''
        \<and> check_tool_access fnmatch_plain (client_rules ?r) ''default'' ''default'' ''read_file''"
    using ok by (simp add: create_connection_context_def ConnectionContext_init_def)
  note inst = unnamespaced_tool_passes_middleware [where tool_name = "''read_file''"
      and fnm = fnmatch_plain and rules = ?rules and cid = "''default''"
      and ctx = "RequestContext None" and r = ?r
      and keyfn = "\<lambda>sid method params. sid @ '':'' @ method" and t_get = 0 and t_set = 0
      and arguments = "JObj [(''path'', JStr ''/a'')]"]
  from inst h1 have a: "middleware_parse_namespaced_tool ''read_file'' = (''default'', ''read_file'')"
    and b: "check_tool_call fnmatch_plain ?rules ''read_file'' ''default''
          = (if check_tool_access fnmatch_plain ?rules ''default'' ''default'' ''read_file'' then (True, None)
             else (False, Some (ErrorData INVALID_REQUEST (''Access denied to tool: '' @ ''read_file''))))"
    and c: "router_parse_namespaced_tool ''read_file''
          = Inl (ValueError (''Tool name must be namespaced: '' @ ''read_file''))"
    by blast+
  from inst h2 have d: "handler_call_tool fnmatch_plain (\<lambda>sid method params. sid @ '':'' @ method) 0 0
       (RequestContext None) ''read_file'' (JObj [(''path'', JStr ''/a'')]) ?r
     = ([TextContent (''Error: Internal routing error: Tool name must be namespaced: '' @ ''read_file'')], ?r)"
    by blast
  from a b c d ok show ?thesis by simp
qed

text \<open>
  Claim C5 at the tool name \<open>read_file\<close>, which has no namespace separator: the parser
  raises its \<open>ValueError\<close> before the \<open>try\<close> block of \<open>_route_tool_call\<close>, so the
  clause that maps a \<open>ValueError\<close> to the invalid-request code does not see it, and
  \<open>route_request\<close> answers with the internal-error code.
\<close>

theorem unnamespaced_call_internal_error:
  "route_request fnmatch_plain (\<lambda>sid method params. sid @ '':'' @ method) 0 0
     (CallToolRequest ''read_file'' (JObj [(''path'', JStr ''/a'')]))
     (ConnectionContext_init\<lparr>client_id := Some ''default''\<rparr>)
     \<lparr>server_manager = \<lparr>config = \<lparr>servers = [], clients = []\<rparr>, processes = []\<rparr>,
      client_rules = [],
      response_cache = ResponseCache_init 1000 300\<rparr>
   = (Error (ErrorData INTERNAL_ERROR
        ''Internal routing error: Tool name must be namespaced: read_file''),
      \<lparr>server_manager = \<lparr>config = \<lparr>servers = [], clients = []\<rparr>, processes = []\<rparr>,
       client_rules = [],
       response_cache = ResponseCache_init 1000 300\<rparr>)
   \<and> INTERNAL_ERROR \<noteq> INVALID_REQUEST"
  by (simp add: route_request_def route_tool_call_def router_parse_namespaced_tool_def
      INTERNAL_ERROR_def INVALID_REQUEST_def)

text \<open>
  The other error paths of a tool call, for a namespaced name that misses the cache: an
  id that is not in the session map gives invalid-request; the router's deadline gives
  internal-error with \<open>Tool call timeout\<close>; the process's own deadline, a backend
  failure and a process without a session give internal-error with \<open>Backend error\<close>.
\<close>

lemma route_tool_call_backend_errors:
  assumes "router_parse_namespaced_tool tool_name = Inr (sid, actual)"
    and "map_of (cache (response_cache r))
           (keyfn sid ''call_tool'' (JObj [(''name'', JStr actual), (''arguments'', arguments)])) = None"
  shows "map_of (processes (server_manager r)) sid = None \<Longrightarrow>
           fst (route_request fnm keyfn t_get t_set (CallToolRequest tool_name arguments) context r)
           = Error (ErrorData INVALID_REQUEST (''Server '' @ sid @ '' not running''))"
    and "map_of (processes (server_manager r)) sid = Some p \<Longrightarrow> session p = Some s \<Longrightarrow>
         call_tool_reply s actual arguments = NoReply Outer \<Longrightarrow>
           fst (route_request fnm keyfn t_get t_set (CallToolRequest tool_name arguments) context r)
           = Error (ErrorData INTERNAL_ERROR (''Tool call timeout: '' @ tool_name))"
    and "map_of (processes (server_manager r)) sid = Some p \<Longrightarrow> session p = Some s \<Longrightarrow>
         call_tool_reply s actual arguments = NoReply Inner \<Longrightarrow>
           fst (route_request fnm keyfn t_get t_set (CallToolRequest tool_name arguments) context r)
           = Error (ErrorData INTERNAL_ERROR (''Backend error: Timeout calling tool '' @ actual
                @ '' on server '' @ server_id p))"
    and "map_of (processes (server_manager r)) sid = Some p \<Longrightarrow> session p = Some s \<Longrightarrow>
         call_tool_reply s actual arguments = Fails msg \<Longrightarrow>
           fst (route_request fnm keyfn t_get t_set (CallToolRequest tool_name arguments) context r)
           = Error (ErrorData INTERNAL_ERROR (''Backend error: Error calling tool '' @ actual
                @ '' on server '' @ server_id p @ '': '' @ msg))"
    and "map_of (processes (server_manager r)) sid = Some p \<Longrightarrow> session p = None \<Longrightarrow>
           fst (route_request fnm keyfn t_get t_set (CallToolRequest tool_name arguments) context r)
           = Error (ErrorData INTERNAL_ERROR (''Backend error: MCP server '' @ server_id p
                @ '' not running''))"
  using assms
  by (simp_all add: route_request_def route_tool_call_def cache_get_def manager_call_tool_def
      process_call_tool_def tool_call_error_def Let_def)

end
